theory Spec2Isabelle
  imports Complex_Main "HOL-Library.Sublist"
begin

section \<open>Python values\<close>

text \<open>
  The handler of \<^verbatim>\<open>hello_world/app.py\<close> works on values decoded from JSON. A Python
  float is a rational, an infinity or NaN (\<^verbatim>\<open>json.loads\<close> accepts all of them); a
  \<^verbatim>\<open>dict\<close> decoded from JSON has string keys and is kept as an association list whose
  first binding of a key is the dictionary's value for it.
\<close>

datatype pyfloat = Finite rat | PosInf | NegInf | NaN

datatype json =
    JNull
  | JBool bool
  | JInt int
  | JFloat pyfloat
  | JStr string
  | JList "json list"
  | JObj "(string \<times> json) list"

type_synonym bytes = "nat list"

text \<open>The attributes of a \<^verbatim>\<open>requests.Response\<close> that the program reads.\<close>

record http_response =
  status_code :: int
  resp_text :: string
  content_type :: "string option"
  content :: bytes

subsection \<open>Exceptions\<close>

text \<open>
  The exception classes that the program raises, catches, or can receive from the
  libraries it calls. \<open>OtherException\<close> stands for any further subclass of
  \<^verbatim>\<open>Exception\<close> that none of the program's \<^verbatim>\<open>except\<close> clauses names.
  \<open>msg\<close> is \<^verbatim>\<open>str(e)\<close>; \<open>exn_response\<close> is the \<^verbatim>\<open>response\<close> attribute that
  \<^verbatim>\<open>requests\<close> exceptions carry (\<^verbatim>\<open>None\<close> when no response was received).
\<close>

datatype exn_class =
    ValueError | JSONDecodeError | UnicodeDecodeError | BinasciiError
  | KeyError | IndexError | TypeError | AttributeError | UnboundLocalError
  | BadSignatureError
  | RequestException | HTTPError | ConnectionError | RequestsJSONDecodeError
  | URLError
  | OtherException

datatype exn = Exn (cls: exn_class) (msg: string) (exn_response: "http_response option")

text \<open>The proper ancestors of a class among the modelled classes.\<close>

fun bases :: "exn_class \<Rightarrow> exn_class list" where
  "bases JSONDecodeError = [ValueError]"
| "bases UnicodeDecodeError = [ValueError]"
| "bases BinasciiError = [ValueError]"
| "bases HTTPError = [RequestException]"
| "bases ConnectionError = [RequestException]"
| "bases RequestsJSONDecodeError = [RequestException, JSONDecodeError, ValueError]"
| "bases _ = []"

definition isinstance :: "exn \<Rightarrow> exn_class \<Rightarrow> bool" where
  "isinstance e c = (cls e = c \<or> c \<in> set (bases (cls e)))"

subsection \<open>Fallible pure computations\<close>

definition sbind :: "exn + 'a \<Rightarrow> ('a \<Rightarrow> exn + 'b) \<Rightarrow> exn + 'b" where
  "sbind m f = (case m of Inl e \<Rightarrow> Inl e | Inr x \<Rightarrow> f x)"

text \<open>\<^verbatim>\<open>d[key]\<close> for a string key.\<close>

fun py_getitem :: "json \<Rightarrow> string \<Rightarrow> exn + json" where
  "py_getitem (JObj kvs) k =
     (case map_of kvs k of Some v \<Rightarrow> Inr v | None \<Rightarrow> Inl (Exn KeyError k None))"
| "py_getitem (JList xs) k = Inl (Exn TypeError ''list indices must be integers or slices, not str'' None)"
| "py_getitem (JStr s) k = Inl (Exn TypeError ''string indices must be integers'' None)"
| "py_getitem _ k = Inl (Exn TypeError ''object is not subscriptable'' None)"

text \<open>\<^verbatim>\<open>x[0]\<close>. A dictionary decoded from JSON has no integer key.\<close>

fun py_getitem0 :: "json \<Rightarrow> exn + json" where
  "py_getitem0 (JList xs) =
     (case xs of [] \<Rightarrow> Inl (Exn IndexError ''list index out of range'' None) | x # _ \<Rightarrow> Inr x)"
| "py_getitem0 (JStr s) =
     (case s of [] \<Rightarrow> Inl (Exn IndexError ''string index out of range'' None) | c # _ \<Rightarrow> Inr (JStr [c]))"
| "py_getitem0 (JObj kvs) = Inl (Exn KeyError ''0'' None)"
| "py_getitem0 _ = Inl (Exn TypeError ''object is not subscriptable'' None)"

text \<open>\<^verbatim>\<open>d.get(key, default)\<close>: only a dictionary has the method.\<close>

fun py_get :: "json \<Rightarrow> string \<Rightarrow> json \<Rightarrow> exn + json" where
  "py_get (JObj kvs) k d = (case map_of kvs k of Some v \<Rightarrow> Inr v | None \<Rightarrow> Inr d)"
| "py_get _ k d = Inl (Exn AttributeError ''object has no attribute get'' None)"

text \<open>\<^verbatim>\<open>x == 1\<close>: Python equates \<^verbatim>\<open>True\<close> and \<^verbatim>\<open>1.0\<close> with \<^verbatim>\<open>1\<close>.\<close>

fun py_eq_one :: "json \<Rightarrow> bool" where
  "py_eq_one (JInt n) = (n = 1)"
| "py_eq_one (JBool b) = b"
| "py_eq_one (JFloat f) = (f = Finite 1)"
| "py_eq_one _ = False"

text \<open>\<^verbatim>\<open>needle in haystack\<close> on two strings: a contiguous substring test.\<close>

fun startswith :: "string \<Rightarrow> string \<Rightarrow> bool" where
  "startswith s [] = True"
| "startswith [] (p # ps) = False"
| "startswith (c # cs) (p # ps) = (c = p \<and> startswith cs ps)"

fun str_contains :: "string \<Rightarrow> string \<Rightarrow> bool" where
  "str_contains [] needle = (needle = [])"
| "str_contains (c # cs) needle = (startswith (c # cs) needle \<or> str_contains cs needle)"

text \<open>\<^verbatim>\<open>key in container\<close> for a string key and a decoded JSON value.\<close>

fun py_in :: "string \<Rightarrow> json \<Rightarrow> exn + bool" where
  "py_in k (JStr s) = Inr (str_contains s k)"
| "py_in k (JList xs) = Inr (JStr k \<in> set xs)"
| "py_in k (JObj kvs) = Inr (k \<in> set (map fst kvs))"
| "py_in k _ = Inl (Exn TypeError ''argument is not iterable'' None)"

text \<open>\<^verbatim>\<open>item in shop_items\<close> and \<^verbatim>\<open>shop_items[item]\<close> for a dictionary with string
  keys: a list or a dictionary cannot be hashed, any other non-string is no key.\<close>

fun py_in_dict :: "json \<Rightarrow> (string \<times> int) list \<Rightarrow> exn + bool" where
  "py_in_dict (JStr s) d = Inr (s \<in> set (map fst d))"
| "py_in_dict (JList xs) d = Inl (Exn TypeError ''unhashable type: list'' None)"
| "py_in_dict (JObj kvs) d = Inl (Exn TypeError ''unhashable type: dict'' None)"
| "py_in_dict _ d = Inr False"

fun py_dict_getitem :: "(string \<times> int) list \<Rightarrow> json \<Rightarrow> exn + int" where
  "py_dict_getitem d (JStr s) =
     (case map_of d s of Some v \<Rightarrow> Inr v | None \<Rightarrow> Inl (Exn KeyError s None))"
| "py_dict_getitem d (JList xs) = Inl (Exn TypeError ''unhashable type: list'' None)"
| "py_dict_getitem d (JObj kvs) = Inl (Exn TypeError ''unhashable type: dict'' None)"
| "py_dict_getitem d _ = Inl (Exn KeyError ''key'' None)"

subsection \<open>Formatted strings\<close>

text \<open>
  An f-string is kept as the list of its parts: literal text, a decoded JSON value
  formatted with \<^verbatim>\<open>str\<close> (a \<open>JStr s\<close> formats as \<open>s\<close>), or an integer.
\<close>

datatype part = Lit string | Val json | Num int

type_synonym pystr = "part list"

subsection \<open>\<^verbatim>\<open>bytes.fromhex\<close>\<close>

definition digit_char :: "nat \<Rightarrow> char" where
  "digit_char d = (''0123456789'' ! d)"

function str_nat :: "nat \<Rightarrow> string" where
  "str_nat n = (if n < 10 then [digit_char n] else str_nat (n div 10) @ [digit_char (n mod 10)])"
  by pat_completeness auto
termination
  by (relation "measure id") auto

definition hex_val :: "char \<Rightarrow> nat option" where
  "hex_val c = map_of (zip ''0123456789abcdefABCDEF''
                  [0, 1, 2, 3, 4, 5, 6, 7, 8, 9, 10, 11, 12, 13, 14, 15, 10, 11, 12, 13, 14, 15]) c"

definition is_space :: "char \<Rightarrow> bool" where
  "is_space c = (c \<in> set [CHR '' '', CHR 0x09, CHR 0x0A, CHR 0x0B, CHR 0x0C, CHR 0x0D])"

definition fromhex_error :: "nat \<Rightarrow> exn" where
  "fromhex_error pos =
     Exn ValueError (''non-hexadecimal number found in fromhex() arg at position '' @ str_nat pos) None"

text \<open>
  CPython's scanner: white space is skipped between bytes, every byte is two hexadecimal
  digits, and the first offending position is reported in a \<^verbatim>\<open>ValueError\<close>.
\<close>

fun fromhex_at :: "nat \<Rightarrow> string \<Rightarrow> exn + bytes" where
  "fromhex_at pos [] = Inr []"
| "fromhex_at pos [c] =
     (if is_space c then Inr []
      else case hex_val c of None \<Rightarrow> Inl (fromhex_error pos) | Some hi \<Rightarrow> Inl (fromhex_error (pos + 1)))"
| "fromhex_at pos (c # d # ds) =
     (if is_space c then fromhex_at (pos + 1) (d # ds)
      else case hex_val c of
             None \<Rightarrow> Inl (fromhex_error pos)
           | Some hi \<Rightarrow>
               (case hex_val d of
                  None \<Rightarrow> Inl (fromhex_error (pos + 1))
                | Some lo \<Rightarrow>
                    (case fromhex_at (pos + 2) ds of
                       Inl e \<Rightarrow> Inl e
                     | Inr bs \<Rightarrow> Inr ((16 * hi + lo) # bs))))"

definition bytes_fromhex :: "string \<Rightarrow> exn + bytes" where
  "bytes_fromhex s = fromhex_at 0 s"

section \<open>The world outside the handler\<close>

text \<open>
  Outbound HTTP requests issued through \<^verbatim>\<open>requests\<close>. The reply payload of every
  command is \<^verbatim>\<open>{'type': 4, 'data': {'content': ...}}\<close>.
\<close>

datatype reply = ChannelMessage pystr

datatype request =
    Callback json json reply
  | CreateDM json
  | SendDM json json int
  | ChatCompletion "string option" bytes
  | ImageGet json

text \<open>Every call that leaves the process, in the order in which it is made.\<close>

datatype call =
    GetItem json
  | UpdateItem json int
  | Requests request
  | Urlopen json

text \<open>
  The configuration and the behaviour of the libraries and services the handler calls.
  Each field answers one call from its arguments: \<open>json_loads\<close> is \<^verbatim>\<open>json.loads\<close> on a
  string (\<open>None\<close> for a \<^verbatim>\<open>JSONDecodeError\<close>); \<open>b64decode_utf8\<close> is
  \<^verbatim>\<open>base64.b64decode(body).decode('utf-8')\<close>; \<open>VerifyKey_raises\<close> and \<open>verify_raises\<close>
  give the exception, if any, of PyNaCl's \<^verbatim>\<open>VerifyKey(key)\<close> and
  \<^verbatim>\<open>verify_key.verify(message, signature)\<close>; \<open>requests_send\<close> is \<^verbatim>\<open>requests.post\<close> or
  \<^verbatim>\<open>requests.get\<close>; \<open>response_json\<close> is \<^verbatim>\<open>response.json()\<close>; \<open>urlopen_read\<close> is
  \<^verbatim>\<open>urllib.request.urlopen(url).read()\<close>; \<open>get_item_raises\<close> and
  \<open>update_item_raises\<close> give the exception, if any, of the two DynamoDB calls.
\<close>

record world =
  PUBLIC_KEY :: "string option"
  api_key :: "string option"
  json_loads :: "string \<Rightarrow> json option"
  b64decode_utf8 :: "string \<Rightarrow> exn + string"
  VerifyKey_raises :: "bytes \<Rightarrow> exn option"
  verify_raises :: "bytes \<Rightarrow> string \<Rightarrow> bytes \<Rightarrow> exn option"
  requests_send :: "request \<Rightarrow> exn + http_response"
  response_json :: "http_response \<Rightarrow> exn + json"
  urlopen_read :: "json \<Rightarrow> exn + bytes"
  get_item_raises :: "json \<Rightarrow> exn option"
  update_item_raises :: "json \<Rightarrow> int \<Rightarrow> exn option"

text \<open>
  The state a request runs in: the DynamoDB table (user id to item; an item may lack the
  \<^verbatim>\<open>tokens\<close> attribute) and the calls made so far.
\<close>

record state =
  table :: "json \<Rightarrow> int option option"
  calls :: "call list"

type_synonym 'a io = "state \<Rightarrow> (exn + 'a) \<times> state"

definition ret :: "'a \<Rightarrow> 'a io" where
  "ret x = (\<lambda>s. (Inr x, s))"

definition raise :: "exn \<Rightarrow> 'a io" where
  "raise e = (\<lambda>s. (Inl e, s))"

definition lift :: "exn + 'a \<Rightarrow> 'a io" where
  "lift r = (\<lambda>s. (r, s))"

definition bnd :: "'a io \<Rightarrow> ('a \<Rightarrow> 'b io) \<Rightarrow> 'b io" where
  "bnd m f = (\<lambda>s. case m s of (Inl e, s') \<Rightarrow> (Inl e, s') | (Inr x, s') \<Rightarrow> f x s')"

text \<open>\<^verbatim>\<open>try: m except ... as e: h e\<close>; a clause list that does not match re-raises in \<open>h\<close>.\<close>

definition catch :: "'a io \<Rightarrow> (exn \<Rightarrow> 'a io) \<Rightarrow> 'a io" where
  "catch m h = (\<lambda>s. case m s of (Inl e, s') \<Rightarrow> h e s' | (Inr x, s') \<Rightarrow> (Inr x, s'))"

definition log_call :: "call \<Rightarrow> state \<Rightarrow> state" where
  "log_call c s = s\<lparr>calls := calls s @ [c]\<rparr>"

definition get_item :: "world \<Rightarrow> json \<Rightarrow> int option option io" where
  "get_item w user_id = (\<lambda>s.
     case get_item_raises w user_id of
       Some e \<Rightarrow> (Inl e, log_call (GetItem user_id) s)
     | None \<Rightarrow> (Inr (table s user_id), log_call (GetItem user_id) s))"

text \<open>\<^verbatim>\<open>SET tokens = if_not_exists(tokens, :zero) + :amount\<close>, creating the item if needed.\<close>

definition update_item :: "world \<Rightarrow> json \<Rightarrow> int \<Rightarrow> unit io" where
  "update_item w user_id amount = (\<lambda>s.
     case update_item_raises w user_id amount of
       Some e \<Rightarrow> (Inl e, log_call (UpdateItem user_id amount) s)
     | None \<Rightarrow>
         (Inr (),
          log_call (UpdateItem user_id amount)
            (s\<lparr>table := (table s)(user_id \<mapsto>
                  Some ((case table s user_id of Some (Some t) \<Rightarrow> t | _ \<Rightarrow> 0) + amount))\<rparr>)))"

definition requests_call :: "world \<Rightarrow> request \<Rightarrow> http_response io" where
  "requests_call w req = (\<lambda>s. (requests_send w req, log_call (Requests req) s))"

definition urlopen :: "world \<Rightarrow> json \<Rightarrow> bytes io" where
  "urlopen w url = (\<lambda>s. (urlopen_read w url, log_call (Urlopen url) s))"

text \<open>\<^verbatim>\<open>response.raise_for_status()\<close>: an \<^verbatim>\<open>HTTPError\<close> for a 4xx or 5xx status.\<close>

definition raise_for_status :: "http_response \<Rightarrow> exn + unit" where
  "raise_for_status r =
     (if 400 \<le> status_code r \<and> status_code r < 600
      then Inl (Exn HTTPError ''HTTP error status'' (Some r)) else Inr ())"

section \<open>The program\<close>

text \<open>
  The functions of \<^verbatim>\<open>app.py\<close> that serve a request, under their own names. A
  \<^verbatim>\<open>try\<close> block is \<open>catch\<close> with its clauses in the order of the source. The
  \<^verbatim>\<open>print\<close> calls write to the log only and are left out; exceptions are the
  subclasses of \<^verbatim>\<open>Exception\<close>. \<^verbatim>\<open>register_commands\<close> is run at deployment, not by
  the handler, and is not part of the model. The body of a response is either
  \<^verbatim>\<open>json.dumps\<close> of a value or the text of the platform's answer.
\<close>

datatype resp_body = JsonDumps json | Text string

record resp =
  statusCode :: int
  headers :: "(string \<times> string) list"
  body :: resp_body

definition std_headers :: "(string \<times> string) list" where
  "std_headers = [(''Content-Type'', ''application/json''), (''Access-Control-Allow-Origin'', ''*'')]"

definition error_response :: "int \<Rightarrow> string \<Rightarrow> resp" where
  "error_response status message =
     \<lparr>statusCode = status,
      headers = std_headers,
      body = JsonDumps (JObj [(''error'', JStr message)])\<rparr>"

definition successful_response :: "json \<Rightarrow> resp" where
  "successful_response b = \<lparr>statusCode = 200, headers = std_headers, body = JsonDumps b\<rparr>"

definition get_user_tokens :: "world \<Rightarrow> json \<Rightarrow> int io" where
  "get_user_tokens w user_id =
     catch
       (bnd (get_item w user_id) (\<lambda>response.
          case response of
            Some item \<Rightarrow> ret (case item of Some t \<Rightarrow> t | None \<Rightarrow> 0)
          | None \<Rightarrow> ret 0))
       (\<lambda>e. ret 0)"

definition update_user_tokens :: "world \<Rightarrow> json \<Rightarrow> int \<Rightarrow> unit io" where
  "update_user_tokens w user_id amount = catch (update_item w user_id amount) (\<lambda>e. ret ())"

definition send_interaction_response :: "world \<Rightarrow> json \<Rightarrow> json \<Rightarrow> reply \<Rightarrow> resp io" where
  "send_interaction_response w interaction_id interaction_token data =
     catch
       (bnd (requests_call w (Callback interaction_id interaction_token data)) (\<lambda>response.
        bnd (lift (raise_for_status response)) (\<lambda>_.
        ret \<lparr>statusCode = status_code response,
             headers = std_headers,
             body = Text (resp_text response)\<rparr>)))
       (\<lambda>e. if isinstance e RequestException
            then ret (error_response 500 ''Failed to send interaction response'')
            else raise e)"

text \<open>The \<^verbatim>\<open>try\<close> block of \<^verbatim>\<open>send_dm_with_embed\<close>, and the function with its handler.\<close>

definition send_dm_attempt :: "world \<Rightarrow> json \<Rightarrow> json \<Rightarrow> int \<Rightarrow> unit io" where
  "send_dm_attempt w user_id item price =
     bnd (requests_call w (CreateDM user_id)) (\<lambda>response.
     bnd (lift (raise_for_status response)) (\<lambda>_.
     bnd (lift (sbind (response_json w response) (\<lambda>j. py_getitem j ''id''))) (\<lambda>channel_id.
     bnd (requests_call w (SendDM channel_id item price)) (\<lambda>dm_response.
     lift (raise_for_status dm_response)))))"

definition send_dm_with_embed :: "world \<Rightarrow> json \<Rightarrow> json \<Rightarrow> int \<Rightarrow> unit io" where
  "send_dm_with_embed w user_id item price =
     catch (send_dm_attempt w user_id item price)
       (\<lambda>e. if isinstance e RequestException then ret () else raise e)"

definition member_user_id :: "json \<Rightarrow> exn + json" where
  "member_user_id body_json =
     sbind (py_getitem body_json ''member'') (\<lambda>member.
     sbind (py_getitem member ''user'') (\<lambda>user. py_getitem user ''id''))"

definition first_option_value :: "json \<Rightarrow> exn + json" where
  "first_option_value body_json =
     sbind (py_getitem body_json ''data'') (\<lambda>data.
     sbind (py_getitem data ''options'') (\<lambda>options.
     sbind (py_getitem0 options) (\<lambda>opt. py_getitem opt ''value'')))"

definition shop_items :: "(string \<times> int) list" where
  "shop_items = [(''item1'', 10), (''item2'', 20), (''item3'', 30)]"

definition balance_command :: "world \<Rightarrow> json \<Rightarrow> json \<Rightarrow> json \<Rightarrow> resp io" where
  "balance_command w body_json interaction_id interaction_token =
     catch
       (bnd (lift (member_user_id body_json)) (\<lambda>user_id.
        bnd (get_user_tokens w user_id) (\<lambda>tokens.
        send_interaction_response w interaction_id interaction_token
          (ChannelMessage [Lit ''<@'', Val user_id, Lit ''>, you have '', Num tokens, Lit '' tokens.'']))))
       (\<lambda>e. if isinstance e KeyError
            then ret (error_response 400 ''Invalid user information'')
            else raise e)"

fun shop_lines :: "(string \<times> int) list \<Rightarrow> pystr" where
  "shop_lines [] = []"
| "shop_lines [(item, price)] = [Lit item, Lit '': '', Num price, Lit '' tokens'']"
| "shop_lines ((item, price) # rest) =
     [Lit item, Lit '': '', Num price, Lit '' tokens'', Lit ''\<newline>''] @ shop_lines rest"

definition shop_command :: "world \<Rightarrow> json \<Rightarrow> json \<Rightarrow> json \<Rightarrow> resp io" where
  "shop_command w body_json interaction_id interaction_token =
     catch
       (send_interaction_response w interaction_id interaction_token
          (ChannelMessage (Lit ''**Shop Items:**\<newline>'' # shop_lines shop_items)))
       (\<lambda>e. ret (error_response 500 ''Internal server error''))"

definition bought_message :: "json \<Rightarrow> json \<Rightarrow> int \<Rightarrow> pystr" where
  "bought_message user_id item price =
     [Lit ''<@'', Val user_id, Lit ''>, you bought '', Val item, Lit '' for '', Num price, Lit '' tokens!'']"

definition not_enough_message :: "json \<Rightarrow> json \<Rightarrow> pystr" where
  "not_enough_message user_id item =
     [Lit ''<@'', Val user_id, Lit ''>, you don't have enough tokens to buy '', Val item, Lit ''!'']"

definition not_exist_message :: "json \<Rightarrow> json \<Rightarrow> pystr" where
  "not_exist_message user_id item =
     [Lit ''<@'', Val user_id, Lit ''>, the item '', Val item, Lit '' does not exist in the shop.'']"

definition buy_command :: "world \<Rightarrow> json \<Rightarrow> json \<Rightarrow> json \<Rightarrow> resp io" where
  "buy_command w body_json interaction_id interaction_token =
     catch
       (bnd (lift (member_user_id body_json)) (\<lambda>user_id.
        bnd (lift (first_option_value body_json)) (\<lambda>item.
        bnd (lift (py_in_dict item shop_items)) (\<lambda>known.
        bnd (if known
             then bnd (lift (py_dict_getitem shop_items item)) (\<lambda>price.
                  bnd (get_user_tokens w user_id) (\<lambda>current_tokens.
                  if current_tokens \<ge> price
                  then bnd (update_user_tokens w user_id (- price)) (\<lambda>_.
                       bnd (send_dm_with_embed w user_id item price) (\<lambda>_.
                       ret (bought_message user_id item price)))
                  else ret (not_enough_message user_id item)))
             else ret (not_exist_message user_id item)) (\<lambda>message.
        send_interaction_response w interaction_id interaction_token (ChannelMessage message))))))
       (\<lambda>e. if isinstance e KeyError then ret (error_response 400 ''Invalid item'') else raise e)"

text \<open>\<^verbatim>\<open>base64.b64encode\<close> is total and injective on bytes; the payload keeps the bytes.\<close>

definition encode_image :: "bytes \<Rightarrow> bytes" where
  "encode_image image_bytes = image_bytes"

definition download_image_with_urllib :: "world \<Rightarrow> json \<Rightarrow> bytes io" where
  "download_image_with_urllib w url =
     catch (urlopen w url) (\<lambda>e. if isinstance e URLError then raise e else raise e)"

text \<open>
  In the handler of \<^verbatim>\<open>download_image\<close> the local \<^verbatim>\<open>response\<close> is read before the
  fallback; it is unbound when \<^verbatim>\<open>requests.get\<close> itself raised.
\<close>

definition download_image :: "world \<Rightarrow> json \<Rightarrow> bytes io" where
  "download_image w url = (\<lambda>s.
     case requests_call w (ImageGet url) s of
       (Inl e, s1) \<Rightarrow>
         if isinstance e RequestException
         then (Inl (Exn UnboundLocalError ''local variable response referenced before assignment'' None), s1)
         else (Inl e, s1)
     | (Inr response, s1) \<Rightarrow>
         catch
           (bnd (lift (raise_for_status response)) (\<lambda>_.
            if \<not> str_contains (case content_type response of Some t \<Rightarrow> t | None \<Rightarrow> '''') ''image''
            then raise (Exn ValueError (''Unexpected content type: '' @
                         (case content_type response of Some t \<Rightarrow> t | None \<Rightarrow> ''None'')) None)
            else ret (content response)))
           (\<lambda>e. if isinstance e RequestException
                then download_image_with_urllib w url
                else raise e) s1)"

definition token_mapping :: "(string \<times> int) list" where
  "token_mapping =
     [(''Plastic'', 1), (''Paper'', 1), (''Glass'', 2), (''Metal'', 3), (''Organic'', 1),
      (''Textile'', 2), (''Electronic'', 4), (''Wood'', 2), (''Rubber'', 3), (''Ceramic'', 2),
      (''Composite'', 2), (''Hazardous'', 5), (''Medical'', 4), (''Miscellaneous'', 1)]"

text \<open>The \<^verbatim>\<open>for\<close> loop of \<^verbatim>\<open>extract_tokens_from_description\<close> over the remaining items.\<close>

fun extract_loop :: "(string \<times> int) list \<Rightarrow> json \<Rightarrow> int \<Rightarrow> exn + int" where
  "extract_loop [] description token_amount = Inr token_amount"
| "extract_loop ((waste_type, tokens) # rest) description token_amount =
     (case py_in waste_type description of
        Inl e \<Rightarrow> Inl e
      | Inr found \<Rightarrow>
          extract_loop rest description (if found then token_amount + tokens else token_amount))"

definition extract_tokens_from_description :: "json \<Rightarrow> exn + int" where
  "extract_tokens_from_description description = extract_loop token_mapping description 0"

definition description_of :: "json \<Rightarrow> exn + json" where
  "description_of result =
     sbind (py_getitem result ''choices'') (\<lambda>choices.
     sbind (py_getitem0 choices) (\<lambda>choice.
     sbind (py_getitem choice ''message'') (\<lambda>message. py_getitem message ''content'')))"

definition earned_message :: "json \<Rightarrow> json \<Rightarrow> int \<Rightarrow> int \<Rightarrow> pystr" where
  "earned_message user_id description token_amount new_balance =
     [Lit ''<@'', Val user_id, Lit ''>, here is what I found in the image:\<newline>'', Val description,
      Lit ''\<newline>You have earned '', Num token_amount, Lit '' tokens. Your new balance is '',
      Num new_balance, Lit '' tokens.'']"

text \<open>The \<^verbatim>\<open>try\<close> block of \<^verbatim>\<open>submit_image_command\<close>, and the function with its handlers.\<close>

definition submit_image_attempt :: "world \<Rightarrow> json \<Rightarrow> json \<Rightarrow> json \<Rightarrow> string option \<Rightarrow> resp io" where
  "submit_image_attempt w body_json interaction_id interaction_token key =
     bnd (lift (member_user_id body_json)) (\<lambda>user_id.
     bnd (lift (first_option_value body_json)) (\<lambda>attachment_url.
     bnd (download_image w attachment_url) (\<lambda>image_bytes.
     bnd (requests_call w (ChatCompletion key (encode_image image_bytes))) (\<lambda>response.
     bnd (lift (raise_for_status response)) (\<lambda>_.
     bnd (lift (response_json w response)) (\<lambda>result.
     bnd (lift (description_of result)) (\<lambda>description.
     bnd (lift (extract_tokens_from_description description)) (\<lambda>token_amount.
     bnd (update_user_tokens w user_id token_amount) (\<lambda>_.
     bnd (get_user_tokens w user_id) (\<lambda>new_balance.
     send_interaction_response w interaction_id interaction_token
       (ChannelMessage (earned_message user_id description token_amount new_balance))))))))))))"

definition submit_image_command :: "world \<Rightarrow> json \<Rightarrow> json \<Rightarrow> json \<Rightarrow> string option \<Rightarrow> resp io" where
  "submit_image_command w body_json interaction_id interaction_token key =
     catch (submit_image_attempt w body_json interaction_id interaction_token key)
       (\<lambda>e. if isinstance e HTTPError
            then (case exn_response e of
                    None \<Rightarrow> raise (Exn AttributeError ''NoneType object has no attribute text'' None)
                  | Some r \<Rightarrow> ret (error_response 500 ''Failed to analyze the image''))
            else if isinstance e RequestException
            then ret (error_response 500 ''Failed to analyze the image'')
            else if isinstance e KeyError
            then ret (error_response 500 ''Failed to process the image'')
            else ret (error_response 500 ''Failed to analyze the image''))"

definition handle_command :: "world \<Rightarrow> json \<Rightarrow> json \<Rightarrow> json \<Rightarrow> resp io" where
  "handle_command w body_json interaction_id interaction_token =
     catch
       (bnd (lift (sbind (py_get body_json ''data'' (JObj [])) (\<lambda>data. py_get data ''name'' JNull)))
          (\<lambda>command.
             if command = JStr ''balance''
             then balance_command w body_json interaction_id interaction_token
             else if command = JStr ''shop''
             then shop_command w body_json interaction_id interaction_token
             else if command = JStr ''buy''
             then buy_command w body_json interaction_id interaction_token
             else if command = JStr ''submit_image''
             then submit_image_command w body_json interaction_id interaction_token (api_key w)
             else ret (error_response 400 ''Unknown command'')))
       (\<lambda>e. if isinstance e KeyError
            then ret (error_response 400 ''Invalid request payload'')
            else ret (error_response 500 ''Internal server error''))"

text \<open>
  An API Gateway proxy event: a dictionary of string headers (empty when the key is
  absent), a body that is a string or \<^verbatim>\<open>null\<close> (the empty string when the key is absent),
  and the base64 flag.
\<close>

record event =
  ev_headers :: "string \<Rightarrow> string option"
  ev_body :: "string option"
  isBase64Encoded :: bool

definition falsy :: "string option \<Rightarrow> bool" where
  "falsy v = (v = None \<or> v = Some '''')"

text \<open>
  The body as a string, decoded when the event is base64-encoded. For a \<^verbatim>\<open>null\<close> body
  \<^verbatim>\<open>base64.b64decode\<close>, or else \<^verbatim>\<open>json.loads\<close>, raises \<^verbatim>\<open>TypeError\<close> before anything
  else is done with it.
\<close>

definition decode_body :: "world \<Rightarrow> event \<Rightarrow> exn + string" where
  "decode_body w ev =
     (case ev_body ev of
        None \<Rightarrow> Inl (Exn TypeError ''expected str, bytes or bytearray, not NoneType'' None)
      | Some b \<Rightarrow> if isBase64Encoded ev then b64decode_utf8 w b else Inr b)"

definition py_json_loads :: "world \<Rightarrow> string \<Rightarrow> exn + json" where
  "py_json_loads w s =
     (case json_loads w s of
        None \<Rightarrow> Inl (Exn JSONDecodeError ''Expecting value'' None)
      | Some j \<Rightarrow> Inr j)"

text \<open>\<^verbatim>\<open>VerifyKey(bytes.fromhex(PUBLIC_KEY))\<close>; the variable is \<^verbatim>\<open>None\<close> when unset.\<close>

definition make_verify_key :: "world \<Rightarrow> exn + bytes" where
  "make_verify_key w =
     (case PUBLIC_KEY w of
        None \<Rightarrow> Inl (Exn TypeError ''fromhex() argument must be str, not NoneType'' None)
      | Some k \<Rightarrow>
          sbind (bytes_fromhex k) (\<lambda>key.
            case VerifyKey_raises w key of Some e \<Rightarrow> Inl e | None \<Rightarrow> Inr key))"

text \<open>\<^verbatim>\<open>verify_key.verify(f'{timestamp}{body}'.encode(), bytes.fromhex(signature))\<close>.\<close>

definition verify_signature :: "world \<Rightarrow> bytes \<Rightarrow> string \<Rightarrow> string \<Rightarrow> string \<Rightarrow> exn + unit" where
  "verify_signature w verify_key timestamp b signature =
     sbind (bytes_fromhex signature) (\<lambda>sig.
       case verify_raises w verify_key (timestamp @ b) sig of Some e \<Rightarrow> Inl e | None \<Rightarrow> Inr ())"

text \<open>The outer \<^verbatim>\<open>try\<close> block of \<^verbatim>\<open>lambda_handler\<close> (lines 65 to 102).\<close>

definition lambda_attempt :: "world \<Rightarrow> event \<Rightarrow> resp io" where
  "lambda_attempt w ev =
     (let signature = ev_headers ev ''x-signature-ed25519'';
          timestamp = ev_headers ev ''x-signature-timestamp''
      in if falsy signature \<or> falsy timestamp
         then raise (Exn ValueError ''Missing signature or timestamp'' None)
         else
           bnd (lift (decode_body w ev)) (\<lambda>b.
           case py_json_loads w b of
             Inl e \<Rightarrow>
               if isinstance e JSONDecodeError
               then ret (error_response 400 ''Invalid JSON'')
               else raise e
           | Inr body_json \<Rightarrow>
               bnd (lift (make_verify_key w)) (\<lambda>verify_key.
               case verify_signature w verify_key (the timestamp) b (the signature) of
                 Inl e \<Rightarrow>
                   if isinstance e BadSignatureError
                   then ret (error_response 401 ''Invalid request signature'')
                   else raise e
               | Inr _ \<Rightarrow>
                   bnd (lift (py_get body_json ''type'' JNull)) (\<lambda>t.
                   if py_eq_one t
                   then ret (successful_response (JObj [(''type'', JInt 1)]))
                   else
                     bnd (lift (py_get body_json ''id'' JNull)) (\<lambda>interaction_id.
                     bnd (lift (py_get body_json ''token'' JNull)) (\<lambda>interaction_token.
                     handle_command w body_json interaction_id interaction_token))))))"

definition lambda_handler :: "world \<Rightarrow> event \<Rightarrow> resp io" where
  "lambda_handler w ev =
     catch (lambda_attempt w ev)
       (\<lambda>e. if isinstance e ValueError
            then ret (error_response 400 (msg e))
            else ret (error_response 500 ''Internal server error''))"

section \<open>The token award as the specification words it\<close>

text \<open>
  The fixed category table of the specification, and the award it describes: the sum of
  the values of exactly those categories whose keyword occurs in the text as a
  contiguous, case-sensitive substring, each category once.
\<close>

definition category_table :: "(string \<times> int) list" where
  "category_table =
     [(''Plastic'', 1), (''Paper'', 1), (''Glass'', 2), (''Metal'', 3), (''Organic'', 1),
      (''Textile'', 2), (''Electronic'', 4), (''Wood'', 2), (''Rubber'', 3), (''Ceramic'', 2),
      (''Composite'', 2), (''Hazardous'', 5), (''Medical'', 4), (''Miscellaneous'', 1)]"

definition award_spec :: "string \<Rightarrow> int" where
  "award_spec txt = (\<Sum>p \<in> {p \<in> set category_table. sublist (fst p) txt}. snd p)"

text \<open>The balance the store holds for a user: zero without an item or without the attribute.\<close>

definition balance_of :: "state \<Rightarrow> json \<Rightarrow> int" where
  "balance_of s user_id = (case table s user_id of Some (Some t) \<Rightarrow> t | _ \<Rightarrow> 0)"

section \<open>Orderings on the calls of a request\<close>

definition is_read :: "call \<Rightarrow> bool" where
  "is_read c = (case c of GetItem u \<Rightarrow> True | _ \<Rightarrow> False)"

definition is_write :: "call \<Rightarrow> bool" where
  "is_write c = (case c of UpdateItem u a \<Rightarrow> True | _ \<Rightarrow> False)"

definition is_notification :: "call \<Rightarrow> bool" where
  "is_notification c =
     (case c of Requests (CreateDM u) \<Rightarrow> True | Requests (SendDM ch i p) \<Rightarrow> True | _ \<Rightarrow> False)"

text \<open>
  \<open>precedes P Q tr\<close>: every \<open>Q\<close> call of the trace has a \<open>P\<close> call strictly before it,
  and no \<open>P\<close> call comes at or after a \<open>Q\<close> call.
\<close>

definition precedes :: "(call \<Rightarrow> bool) \<Rightarrow> (call \<Rightarrow> bool) \<Rightarrow> call list \<Rightarrow> bool" where
  "precedes P Q tr =
     ((\<forall>j < length tr. Q (tr ! j) \<longrightarrow> (\<exists>i < j. P (tr ! i))) \<and>
      (\<forall>i < length tr. \<forall>j < length tr. P (tr ! i) \<and> Q (tr ! j) \<longrightarrow> i < j))"

section \<open>Test doubles\<close>

text \<open>
  A world for running the handler on concrete requests. The key is 32 bytes of hex; the
  double of \<^verbatim>\<open>verify\<close> rejects a signature that is not 64 bytes long with PyNaCl's
  \<^verbatim>\<open>ValueError\<close>, accepts the signature of 64 bytes \<open>0x5a\<close> and answers
  \<^verbatim>\<open>BadSignatureError\<close> to every other one. \<open>test_loads\<close> decodes the request
  and response bodies listed and rejects every other string, among them \<open>bad_body\<close>.
  The platform answers a callback with 204 and no content.
\<close>

definition key_hex :: string where
  "key_hex = ''d75a980182b10ab7d54bfed3c964073a0ee172f3daa62325af021a68f707511a''"

definition good_signature :: string where
  "good_signature = ''5a5a5a5a5a5a5a5a5a5a5a5a5a5a5a5a5a5a5a5a5a5a5a5a5a5a5a5a5a5a5a5a5a5a5a5a5a5a5a5a5a5a5a5a5a5a5a5a5a5a5a5a5a5a5a5a5a5a5a5a5a5a5a5a''"

definition wrong_signature :: string where
  "wrong_signature = ''0f0f0f0f0f0f0f0f0f0f0f0f0f0f0f0f0f0f0f0f0f0f0f0f0f0f0f0f0f0f0f0f0f0f0f0f0f0f0f0f0f0f0f0f0f0f0f0f0f0f0f0f0f0f0f0f0f0f0f0f0f0f0f0f''"

definition bad_body :: string where
  "bad_body = ''{not json''"

definition ping_body :: string where
  \<open>ping_body = ''{"type": 1}''\<close>

definition balance_body :: string where
  \<open>balance_body = ''{"type": 2, "id": "9", "token": "tok", "member": {"user": {"id": "42"}}, "data": {"name": "balance"}}''\<close>

definition balance_json :: json where
  "balance_json =
     JObj [(''type'', JInt 2), (''id'', JStr ''9''), (''token'', JStr ''tok''),
           (''member'', JObj [(''user'', JObj [(''id'', JStr ''42'')])]),
           (''data'', JObj [(''name'', JStr ''balance'')])]"

definition buy_body :: string where
  \<open>buy_body = ''{"type": 2, "id": "9", "token": "tok", "member": {"user": {"id": "42"}}, "data": {"name": "buy", "options": [{"name": "item", "value": "item1"}]}}''\<close>

definition buy_json :: json where
  "buy_json =
     JObj [(''type'', JInt 2), (''id'', JStr ''9''), (''token'', JStr ''tok''),
           (''member'', JObj [(''user'', JObj [(''id'', JStr ''42'')])]),
           (''data'', JObj [(''name'', JStr ''buy''),
              (''options'', JList [JObj [(''name'', JStr ''item''), (''value'', JStr ''item1'')]])])]"

definition submit_body :: string where
  \<open>submit_body = ''{"type": 2, "id": "9", "token": "tok", "member": {"user": {"id": "42"}}, "data": {"name": "submit_image", "options": [{"name": "url", "value": "https://example.org/a.png"}]}}''\<close>

definition submit_json :: json where
  "submit_json =
     JObj [(''type'', JInt 2), (''id'', JStr ''9''), (''token'', JStr ''tok''),
           (''member'', JObj [(''user'', JObj [(''id'', JStr ''42'')])]),
           (''data'', JObj [(''name'', JStr ''submit_image''),
              (''options'', JList [JObj [(''name'', JStr ''url''),
                                        (''value'', JStr ''https://example.org/a.png'')]])])]"

definition channel_text :: string where
  \<open>channel_text = ''{"id": "777", "type": 1}''\<close>

definition channel_json :: json where
  "channel_json = JObj [(''id'', JStr ''777''), (''type'', JInt 1)]"

definition no_channel_text :: string where
  \<open>no_channel_text = ''{"message": "pending"}''\<close>

definition no_channel_json :: json where
  "no_channel_json = JObj [(''message'', JStr ''pending'')]"

definition glass_metal_text :: string where
  "glass_metal_text = ''Glass bottles and Metal scraps''"

definition chat_text :: string where
  \<open>chat_text = ''{"choices": [{"message": {"content": "Glass bottles and Metal scraps"}}]}''\<close>

definition chat_json :: json where
  "chat_json =
     JObj [(''choices'', JList [JObj [(''message'', JObj [(''content'', JStr glass_metal_text)])]])]"

definition test_loads :: "string \<Rightarrow> json option" where
  "test_loads =
     map_of [(ping_body, JObj [(''type'', JInt 1)]), (balance_body, balance_json),
             (buy_body, buy_json), (submit_body, submit_json), (channel_text, channel_json),
             (no_channel_text, no_channel_json), (chat_text, chat_json)]"

definition ok_response :: "int \<Rightarrow> string \<Rightarrow> string option \<Rightarrow> bytes \<Rightarrow> http_response" where
  "ok_response st t ct c = \<lparr>status_code = st, resp_text = t, content_type = ct, content = c\<rparr>"

fun test_send :: "request \<Rightarrow> exn + http_response" where
  "test_send (Callback i t d) = Inr (ok_response 204 [] None [])"
| "test_send (CreateDM u) = Inr (ok_response 200 channel_text (Some ''application/json'') [])"
| "test_send (SendDM ch i p) = Inr (ok_response 200 ''{}'' (Some ''application/json'') [])"
| "test_send (ChatCompletion k b) = Inr (ok_response 200 chat_text (Some ''application/json'') [])"
| "test_send (ImageGet u) = Inr (ok_response 200 [] (Some ''image/png'') [137, 80, 78, 71])"

definition test_world :: world where
  "test_world =
     \<lparr>PUBLIC_KEY = Some key_hex,
      api_key = Some ''sk-test'',
      json_loads = test_loads,
      b64decode_utf8 = (\<lambda>b. Inl (Exn BinasciiError ''Incorrect padding'' None)),
      VerifyKey_raises = (\<lambda>k. if length k = 32 then None
                              else Some (Exn ValueError ''The key must be exactly 32 bytes long'' None)),
      verify_raises = (\<lambda>k m sg.
         if length sg \<noteq> 64
         then Some (Exn ValueError ''The signature must be exactly 64 bytes long'' None)
         else if list_all (\<lambda>b. b = 90) sg then None
         else Some (Exn BadSignatureError ''Signature was forged or corrupt'' None)),
      requests_send = test_send,
      response_json = (\<lambda>r. case test_loads (resp_text r) of
                             Some j \<Rightarrow> Inr j
                           | None \<Rightarrow> Inl (Exn RequestsJSONDecodeError ''Expecting value'' None)),
      urlopen_read = (\<lambda>u. Inl (Exn URLError ''unreachable'' None)),
      get_item_raises = (\<lambda>u. None),
      update_item_raises = (\<lambda>u a. None)\<rparr>"

definition test_event :: "string \<Rightarrow> string \<Rightarrow> event" where
  "test_event signature b =
     \<lparr>ev_headers = [''x-signature-ed25519'' \<mapsto> signature, ''x-signature-timestamp'' \<mapsto> ''1700000000''],
      ev_body = Some b,
      isBase64Encoded = False\<rparr>"

text \<open>The store with one user, who holds \<open>n\<close> tokens, and no call made yet.\<close>

definition test_state :: "int \<Rightarrow> state" where
  "test_state n = \<lparr>table = [JStr ''42'' \<mapsto> Some n], calls = []\<rparr>"

text \<open>The bytes of \<open>key_hex\<close>.\<close>

definition test_key :: bytes where
  "test_key = [215, 90, 152, 1, 130, 177, 10, 183, 213, 75, 254, 211, 201, 100, 7, 58,
               14, 225, 114, 243, 218, 166, 35, 37, 175, 2, 26, 104, 247, 7, 81, 26]"

text \<open>The platform creates the channel but its answer carries no \<^verbatim>\<open>id\<close>.\<close>

definition no_channel_world :: world where
  "no_channel_world =
     test_world\<lparr>requests_send := (\<lambda>q. case q of
        CreateDM u \<Rightarrow> Inr (ok_response 200 no_channel_text (Some ''application/json'') [])
      | _ \<Rightarrow> test_send q)\<rparr>"

text \<open>The platform cannot be reached for the private channel.\<close>

definition offline_dm_world :: world where
  "offline_dm_world =
     test_world\<lparr>requests_send := (\<lambda>q. case q of
        CreateDM u \<Rightarrow> Inl (Exn ConnectionError ''connection refused'' None)
      | _ \<Rightarrow> test_send q)\<rparr>"

text \<open>The URL serves a page, not an image, to both transports.\<close>

definition html_world :: world where
  "html_world =
     test_world\<lparr>requests_send := (\<lambda>q. case q of
        ImageGet u \<Rightarrow> Inr (ok_response 200 ''<html></html>'' (Some ''text/html'') [60, 104])
      | _ \<Rightarrow> test_send q),
      urlopen_read := (\<lambda>u. Inr [60, 104])\<rparr>"

text \<open>The first fetch is answered with 404; the second transport gets the image.\<close>

definition not_found_world :: world where
  "not_found_world =
     test_world\<lparr>requests_send := (\<lambda>q. case q of
        ImageGet u \<Rightarrow> Inr (ok_response 404 ''Not Found'' (Some ''text/plain'') [])
      | _ \<Rightarrow> test_send q),
      urlopen_read := (\<lambda>u. Inr [137, 80, 78, 71])\<rparr>"

text \<open>The first fetch cannot connect.\<close>

definition unreachable_world :: world where
  "unreachable_world =
     test_world\<lparr>requests_send := (\<lambda>q. case q of
        ImageGet u \<Rightarrow> Inl (Exn ConnectionError ''connection refused'' None)
      | _ \<Rightarrow> test_send q),
      urlopen_read := (\<lambda>u. Inr [137, 80, 78, 71])\<rparr>"

text \<open>The store refuses every read.\<close>

definition store_down_world :: world where
  "store_down_world =
     test_world\<lparr>get_item_raises := (\<lambda>u. Some (Exn OtherException ''ClientError'' None))\<rparr>"

section \<open>Shapes of the handler's responses\<close>

text \<open>
  The pairs of status and message that the program passes to \<open>error_response\<close> as
  literals, the acknowledgement of a liveness check, and a response that hands on the
  status and text of the platform's answer to a callback.
\<close>

definition command_envelopes :: "(int \<times> string) list" where
  "command_envelopes =
     [(400, ''Unknown command''), (400, ''Invalid request payload''),
      (500, ''Internal server error''),
      (400, ''Invalid user information''), (400, ''Invalid item''),
      (500, ''Failed to send interaction response''),
      (500, ''Failed to analyze the image''), (500, ''Failed to process the image'')]"

definition error_envelopes :: "(int \<times> string) list" where
  "error_envelopes =
     [(400, ''Missing signature or timestamp''), (400, ''Invalid JSON''),
      (401, ''Invalid request signature'')] @ command_envelopes"

definition fixed_error :: "resp \<Rightarrow> bool" where
  "fixed_error r = (r \<in> set (map (\<lambda>(st, m). error_response st m) error_envelopes))"

definition is_ack :: "resp \<Rightarrow> bool" where
  "is_ack r = (r = successful_response (JObj [(''type'', JInt 1)]))"

definition is_passthrough :: "resp \<Rightarrow> bool" where
  "is_passthrough r =
     ((case body r of Text t \<Rightarrow> True | JsonDumps j \<Rightarrow> False) \<and>
      headers r = std_headers \<and>
      (statusCode r < 400 \<or> 600 \<le> statusCode r))"

definition command_response :: "resp \<Rightarrow> bool" where
  "command_response r =
     (is_passthrough r \<or> r \<in> set (map (\<lambda>(st, m). error_response st m) command_envelopes))"

text \<open>\<open>yields P m\<close>: every response that the computation \<open>m\<close> returns satisfies \<open>P\<close>.\<close>

definition yields :: "(resp \<Rightarrow> bool) \<Rightarrow> resp io \<Rightarrow> bool" where
  "yields P m = (\<forall>s r. fst (m s) = Inr r \<longrightarrow> P r)"

section \<open>Running the monad\<close>

lemma bnd_lift_Inr [simp]: "bnd (lift (Inr x)) f = f x"
  by (simp add: bnd_def lift_def)

lemma bnd_lift_Inl [simp]: "bnd (lift (Inl e)) f = raise e"
  by (simp add: bnd_def lift_def raise_def)

lemma bnd_ret [simp]: "bnd (ret x) f = f x"
  by (simp add: bnd_def ret_def)

lemma bnd_raise [simp]: "bnd (raise e) f = raise e"
  by (simp add: bnd_def raise_def)

lemma catch_ret [simp]: "catch (ret x) h = ret x"
  by (simp add: catch_def ret_def)

lemma catch_raise [simp]: "catch (raise e) h = h e"
  by (simp add: catch_def raise_def)

lemma bnd_run: "bnd m f s = (case m s of (Inl e, s') \<Rightarrow> (Inl e, s') | (Inr x, s') \<Rightarrow> f x s')"
  by (simp add: bnd_def)

lemma catch_run: "catch m h s = (case m s of (Inl e, s') \<Rightarrow> h e s' | (Inr x, s') \<Rightarrow> (Inr x, s'))"
  by (simp add: catch_def)

lemma ret_run [simp]: "ret x s = (Inr x, s)"
  by (simp add: ret_def)

lemma raise_run [simp]: "raise e s = (Inl e, s)"
  by (simp add: raise_def)

lemma lift_run [simp]: "lift r s = (r, s)"
  by (simp add: lift_def)

lemma snd_catch:
  assumes "\<And>e s'. snd (h e s') = s'"
  shows "snd (catch m h s) = snd (m s)"
  using assms by (simp add: catch_run split: prod.splits sum.splits)

lemma snd_bnd_lift: "snd (bnd (lift r) f s) = (case r of Inl e \<Rightarrow> s | Inr x \<Rightarrow> snd (f x s))"
  by (simp add: bnd_run split: sum.splits)

lemma table_log_call [simp]: "table (log_call c s) = table s"
  by (simp add: log_call_def)

lemma calls_log_call [simp]: "calls (log_call c s) = calls s @ [c]"
  by (simp add: log_call_def)

lemma balance_of_log_call [simp]: "balance_of (log_call c s) u = balance_of s u"
  by (simp add: balance_of_def)

section \<open>The adapters\<close>

lemma get_user_tokens_run:
  "get_user_tokens w u s =
     (Inr (if get_item_raises w u = None then balance_of s u else 0), log_call (GetItem u) s)"
  by (simp add: get_user_tokens_def get_item_def catch_run bnd_run balance_of_def
           split: option.splits)

lemma update_user_tokens_run:
  "update_user_tokens w u a s =
     (Inr (),
      log_call (UpdateItem u a)
        (if update_item_raises w u a = None
         then s\<lparr>table := (table s)(u \<mapsto> Some (balance_of s u + a))\<rparr> else s))"
  by (simp add: update_user_tokens_def update_item_def catch_run balance_of_def
           split: option.splits)

lemma send_interaction_response_state:
  "snd (send_interaction_response w i t d s) = log_call (Requests (Callback i t d)) s"
  by (simp add: send_interaction_response_def requests_call_def catch_run bnd_run
           split: sum.splits)

lemma send_interaction_response_ok:
  assumes "requests_send w (Callback i t d) = Inr r" and "raise_for_status r = Inr ()"
  shows "send_interaction_response w i t d s =
           (Inr \<lparr>statusCode = status_code r, headers = std_headers, body = Text (resp_text r)\<rparr>,
            log_call (Requests (Callback i t d)) s)"
  using assms
  by (simp add: send_interaction_response_def requests_call_def catch_run bnd_run)

section \<open>The keyword scan\<close>

lemma startswith_prefix: "startswith s p \<longleftrightarrow> prefix p s"
  by (induction s p rule: startswith.induct) auto

lemma str_contains_sublist: "str_contains s k \<longleftrightarrow> sublist k s"
  by (induction s) (auto simp: startswith_prefix sublist_Cons_right)

lemma extract_loop_str:
  "extract_loop tbl (JStr t) acc =
     Inr (acc + sum_list (map snd (filter (\<lambda>p. sublist (fst p) t) tbl)))"
  by (induction tbl arbitrary: acc) (auto simp: str_contains_sublist)

lemma distinct_token_mapping: "distinct token_mapping"
  by (simp add: token_mapping_def)

lemma award_spec_sum_list:
  "award_spec t = sum_list (map snd (filter (\<lambda>p. sublist (fst p) t) token_mapping))"
proof -
  have eq: "category_table = token_mapping"
    by (simp add: category_table_def token_mapping_def)
  have d: "distinct (filter (\<lambda>p. sublist (fst p) t) token_mapping)"
    using distinct_token_mapping by (rule distinct_filter)
  have "{p \<in> set category_table. sublist (fst p) t} =
          set (filter (\<lambda>p. sublist (fst p) t) token_mapping)"
    by (simp only: eq set_filter)
  then have "award_spec t = sum snd (set (filter (\<lambda>p. sublist (fst p) t) token_mapping))"
    by (simp only: award_spec_def)
  also have "\<dots> = sum_list (map snd (filter (\<lambda>p. sublist (fst p) t) token_mapping))"
    by (rule sum_list_distinct_conv_sum_set[OF d, symmetric])
  finally show ?thesis .
qed

lemma extract_tokens_str: "extract_tokens_from_description (JStr t) = Inr (award_spec t)"
  by (simp add: extract_tokens_from_description_def extract_loop_str award_spec_sum_list)

lemma extract_glass_metal: "extract_tokens_from_description (JStr glass_metal_text) = Inr 5"
  by (simp add: extract_tokens_from_description_def token_mapping_def glass_metal_text_def)

lemma download_image_table: "table (snd (download_image w url s)) = table s"
  by (simp add: download_image_def download_image_with_urllib_def urlopen_def requests_call_def
                catch_run bnd_run raise_for_status_def split: sum.splits prod.splits)

lemma submit_image_credit:
  assumes uid: "member_user_id body_json = Inr user_id"
    and url: "first_option_value body_json = Inr url"
    and dl: "download_image w url s = (Inr img, s1)"
    and post: "requests_send w (ChatCompletion key (encode_image img)) = Inr r"
    and ok: "raise_for_status r = Inr ()"
    and js: "response_json w r = Inr result"
    and desc: "description_of result = Inr (JStr txt)"
    and upd: "update_item_raises w user_id (award_spec txt) = None"
  shows "balance_of (snd (submit_image_command w body_json iid tok key s)) user_id =
           balance_of s user_id + award_spec txt"
proof -
  have t1: "table s1 = table s"
    using download_image_table[of w url s] dl by simp
  then have b1: "balance_of s1 user_id = balance_of s user_id"
    by (simp add: balance_of_def)
  let ?s2 = "log_call (Requests (ChatCompletion key (encode_image img))) s1"
  let ?s3 = "log_call (UpdateItem user_id (award_spec txt))
               (?s2\<lparr>table := (table ?s2)(user_id \<mapsto> Some (balance_of ?s2 user_id + award_spec txt))\<rparr>)"
  let ?s4 = "log_call (GetItem user_id) ?s3"
  have run: "submit_image_attempt w body_json iid tok key s =
               send_interaction_response w iid tok
                 (ChannelMessage (earned_message user_id (JStr txt) (award_spec txt)
                    (if get_item_raises w user_id = None then balance_of ?s3 user_id else 0))) ?s4"
    using uid url dl post ok js desc upd
    by (simp add: submit_image_attempt_def bnd_run requests_call_def extract_tokens_str
                  update_user_tokens_run get_user_tokens_run)
  have "snd (submit_image_command w body_json iid tok key s) =
          snd (submit_image_attempt w body_json iid tok key s)"
    unfolding submit_image_command_def
    by (rule snd_catch) (simp split: option.splits)
  then have "snd (submit_image_command w body_json iid tok key s) =
          log_call (Requests (Callback iid tok
                 (ChannelMessage (earned_message user_id (JStr txt) (award_spec txt)
                    (if get_item_raises w user_id = None then balance_of ?s3 user_id else 0))))) ?s4"
    by (simp only: run send_interaction_response_state)
  then show ?thesis
    by (simp add: balance_of_def t1)
qed

section \<open>Token award\<close>

lemma test_member_user_id:
  "member_user_id submit_json = Inr (JStr ''42'')"
  "member_user_id buy_json = Inr (JStr ''42'')"
  "member_user_id balance_json = Inr (JStr ''42'')"
  by (simp_all add: member_user_id_def submit_json_def buy_json_def balance_json_def sbind_def)

lemma test_first_option_value:
  "first_option_value submit_json = Inr (JStr ''https://example.org/a.png'')"
  "first_option_value buy_json = Inr (JStr ''item1'')"
  by (simp_all add: first_option_value_def submit_json_def buy_json_def sbind_def)

lemma test_download:
  "download_image test_world u s = (Inr [137, 80, 78, 71], log_call (Requests (ImageGet u)) s)"
  by (simp add: download_image_def requests_call_def test_world_def ok_response_def
                raise_for_status_def catch_run)

lemma test_loads_chat: "test_loads chat_text = Some chat_json"
  by (simp add: test_loads_def chat_text_def ping_body_def balance_body_def buy_body_def
                submit_body_def channel_text_def no_channel_text_def)

lemma test_description: "description_of chat_json = Inr (JStr glass_metal_text)"
  by (simp add: description_of_def chat_json_def sbind_def)

text \<open>
  C4. For every classification text the award computed by
  \<open>extract_tokens_from_description\<close> is the sum, over the fixed category table, of the
  values of exactly the categories whose keyword is a case-sensitive substring of the
  text, each once; the text ``Glass bottles and Metal scraps'' yields 2 + 3 = 5; and when
  a \<^verbatim>\<open>submit_image\<close> request reaches that text and the store accepts the update, the
  user's balance grows by exactly the award.
\<close>

theorem token_award_is_category_sum:
  "extract_tokens_from_description (JStr dtext) = Inr (award_spec dtext) \<and>
   extract_tokens_from_description (JStr glass_metal_text) = Inr (2 + 3) \<and>
   (member_user_id body_json = Inr user_id \<and>
    first_option_value body_json = Inr url \<and>
    download_image w url s = (Inr img, s1) \<and>
    requests_send w (ChatCompletion key (encode_image img)) = Inr r \<and>
    raise_for_status r = Inr () \<and>
    response_json w r = Inr result \<and>
    description_of result = Inr (JStr dtext) \<and>
    update_item_raises w user_id (award_spec dtext) = None \<longrightarrow>
    balance_of (snd (submit_image_command w body_json iid tok key s)) user_id =
      balance_of s user_id + award_spec dtext)"
  using extract_tokens_str[of dtext] extract_glass_metal submit_image_credit[of body_json user_id url w s img s1 key r result dtext iid tok]
  by simp

theorem token_award_witness:
  "extract_tokens_from_description (JStr glass_metal_text) = Inr 5 \<and>
   balance_of (test_state 15) (JStr ''42'') = 15 \<and>
   balance_of (snd (submit_image_command test_world submit_json (JStr ''9'') (JStr ''tok'')
                      (Some ''sk-test'') (test_state 15))) (JStr ''42'') = 20"
proof -
  let ?url = "JStr ''https://example.org/a.png''"
  let ?r = "ok_response 200 chat_text (Some ''application/json'') []"
  have a: "award_spec glass_metal_text = 5"
    using token_award_is_category_sum[THEN conjunct1, of glass_metal_text]
          token_award_is_category_sum[THEN conjunct2, THEN conjunct1]
    by simp
  have post: "requests_send test_world (ChatCompletion (Some ''sk-test'') (encode_image [137, 80, 78, 71])) = Inr ?r"
    by (simp add: test_world_def)
  have ok: "raise_for_status ?r = Inr ()"
    by (simp add: raise_for_status_def ok_response_def)
  have js: "response_json test_world ?r = Inr chat_json"
    by (simp add: test_world_def ok_response_def test_loads_chat)
  have upd: "update_item_raises test_world (JStr ''42'') (award_spec glass_metal_text) = None"
    by (simp add: test_world_def)
  have b: "balance_of (test_state 15) (JStr ''42'') = 15"
    by (simp add: balance_of_def test_state_def)
  from token_award_is_category_sum[of glass_metal_text submit_json "JStr ''42''" ?url test_world
        "test_state 15" "[137, 80, 78, 71]" "log_call (Requests (ImageGet ?url)) (test_state 15)"
        "Some ''sk-test''" ?r chat_json "JStr ''9''" "JStr ''tok''"]
  show ?thesis
    using test_member_user_id(1) test_first_option_value(1) test_download post ok js
          test_description upd a b
    by simp
qed

section \<open>The notification\<close>

lemma send_dm_attempt_table: "table (snd (send_dm_attempt w u i p s)) = table s"
  by (simp add: send_dm_attempt_def requests_call_def bnd_run split: sum.splits)

lemma send_dm_with_embed_table: "table (snd (send_dm_with_embed w u i p s)) = table s"
proof -
  have "snd (send_dm_with_embed w u i p s) = snd (send_dm_attempt w u i p s)"
    unfolding send_dm_with_embed_def by (rule snd_catch) simp
  then show ?thesis by (simp add: send_dm_attempt_table)
qed

lemma send_dm_attempt_fst: "fst (send_dm_attempt w u i p s) = fst (send_dm_attempt w u i p s')"
  by (simp add: send_dm_attempt_def requests_call_def bnd_run split: sum.splits)

lemma send_dm_attempt_calls:
  "\<exists>tr. calls (snd (send_dm_attempt w u i p s)) = calls s @ tr \<and> (\<forall>c \<in> set tr. is_notification c)"
  by (simp add: send_dm_attempt_def requests_call_def bnd_run is_notification_def
           split: sum.splits)

lemma send_dm_with_embed_state:
  "snd (send_dm_with_embed w u i p s) = snd (send_dm_attempt w u i p s)"
  unfolding send_dm_with_embed_def by (rule snd_catch) simp

lemma send_dm_with_embed_swallows:
  assumes "send_dm_attempt w u i p s = (Inl e, s')" and "isinstance e RequestException"
  shows "send_dm_with_embed w u i p s = (Inr (), s')"
  using assms by (simp add: send_dm_with_embed_def catch_run)

lemma send_dm_with_embed_propagates:
  assumes "send_dm_attempt w u i p s = (Inl e, s')" and "\<not> isinstance e RequestException"
  shows "send_dm_with_embed w u i p s = (Inl e, s')"
  using assms by (simp add: send_dm_with_embed_def catch_run)

section \<open>The purchase\<close>

lemma shop_price:
  assumes "map_of shop_items nm = Some price"
  shows "py_in_dict (JStr nm) shop_items = Inr True"
    and "py_dict_getitem shop_items (JStr nm) = Inr price"
    and "0 < price"
  using assms by (auto simp: shop_items_def split: if_splits)

lemma shop_known:
  assumes "py_in_dict item shop_items = Inr True"
  shows "\<exists>nm price. item = JStr nm \<and> map_of shop_items nm = Some price"
  using assms by (cases item) (auto simp: shop_items_def)

text \<open>The handler of \<open>buy_command\<close> leaves the state as the \<^verbatim>\<open>try\<close> block left it.\<close>

lemma buy_command_rejected:
  assumes uid: "member_user_id body_json = Inr user_id"
    and item: "first_option_value body_json = Inr (JStr nm)"
    and price: "map_of shop_items nm = Some price"
    and low: "balance_of s user_id < price"
  shows "snd (buy_command w body_json iid tok s) =
           log_call (Requests (Callback iid tok (ChannelMessage (not_enough_message user_id (JStr nm)))))
             (log_call (GetItem user_id) s)"
proof -
  have pos: "0 < price" using price by (rule shop_price)
  have cur: "\<not> price \<le> (if get_item_raises w user_id = None then balance_of s user_id else 0)"
    using low pos by simp
  have "snd (buy_command w body_json iid tok s) =
          snd (send_interaction_response w iid tok
                 (ChannelMessage (not_enough_message user_id (JStr nm))) (log_call (GetItem user_id) s))"
    unfolding buy_command_def
    apply (subst snd_catch)
     apply simp
    apply (simp only: uid item bnd_lift_Inr shop_price(1,2)[OF price] if_True)
    apply (simp only: bnd_run get_user_tokens_run prod.case sum.case cur if_False ret_run)
    done
  then show ?thesis by (simp only: send_interaction_response_state)
qed

lemma buy_command_state:
  "snd (buy_command w body_json iid tok s) =
     snd (bnd (lift (member_user_id body_json)) (\<lambda>user_id.
          bnd (lift (first_option_value body_json)) (\<lambda>item.
          bnd (lift (py_in_dict item shop_items)) (\<lambda>known.
          bnd (if known
               then bnd (lift (py_dict_getitem shop_items item)) (\<lambda>price.
                    bnd (get_user_tokens w user_id) (\<lambda>current_tokens.
                    if current_tokens \<ge> price
                    then bnd (update_user_tokens w user_id (- price)) (\<lambda>_.
                         bnd (send_dm_with_embed w user_id item price) (\<lambda>_.
                         ret (bought_message user_id item price)))
                    else ret (not_enough_message user_id item)))
               else ret (not_exist_message user_id item)) (\<lambda>message.
          send_interaction_response w iid tok (ChannelMessage message))))) s)"
  unfolding buy_command_def by (rule snd_catch) simp

lemma update_user_tokens_eq:
  "update_user_tokens w u a s = (Inr (), snd (update_user_tokens w u a s))"
  by (simp add: update_user_tokens_run)

lemma update_user_tokens_table:
  "table (snd (update_user_tokens w u a s)) =
     (if update_item_raises w u a = None
      then (table s)(u \<mapsto> Some (balance_of s u + a)) else table s)"
  by (simp add: update_user_tokens_run)

lemma balance_of_update:
  "balance_of (snd (update_user_tokens w u a s)) u =
     (if update_item_raises w u a = None then balance_of s u + a else balance_of s u)"
  by (simp add: update_user_tokens_table balance_of_def)

lemma update_user_tokens_calls:
  "calls (snd (update_user_tokens w u a s)) = calls s @ [UpdateItem u a]"
  by (simp add: update_user_tokens_run)

text \<open>What a purchase does to the state once the item is known and the funds suffice.\<close>

lemma purchase_state:
  assumes cur: "price \<le> (if get_item_raises w user_id = None then balance_of s user_id else 0)"
  shows "\<exists>s4.
           snd (bnd (bnd (get_user_tokens w user_id) (\<lambda>current_tokens.
                    if current_tokens \<ge> price
                    then bnd (update_user_tokens w user_id (- price)) (\<lambda>_.
                         bnd (send_dm_with_embed w user_id item price) (\<lambda>_.
                         ret (bought_message user_id item price)))
                    else ret (not_enough_message user_id item)))
                 (\<lambda>message. send_interaction_response w iid tok (ChannelMessage message)) s) = s4 \<and>
           (s4 = snd (send_dm_attempt w user_id item price
                        (snd (update_user_tokens w user_id (- price) (log_call (GetItem user_id) s)))) \<or>
            s4 = log_call (Requests (Callback iid tok (ChannelMessage (bought_message user_id item price))))
                  (snd (send_dm_attempt w user_id item price
                        (snd (update_user_tokens w user_id (- price) (log_call (GetItem user_id) s))))))"
proof -
  define s1 where "s1 = log_call (GetItem user_id) s"
  define s2 where "s2 = snd (update_user_tokens w user_id (- price) s1)"
  obtain res s3 where dm: "send_dm_with_embed w user_id item price s2 = (res, s3)"
    by (cases "send_dm_with_embed w user_id item price s2") auto
  have s3: "snd (send_dm_attempt w user_id item price s2) = s3"
    using send_dm_with_embed_state[of w user_id item price s2] dm by simp
  have g: "get_user_tokens w user_id s =
             (Inr (if get_item_raises w user_id = None then balance_of s user_id else 0), s1)"
    by (simp add: get_user_tokens_run s1_def)
  have u: "update_user_tokens w user_id (- price) s1 = (Inr (), s2)"
    unfolding s2_def by (rule update_user_tokens_eq)
  show ?thesis
    unfolding s1_def[symmetric] s2_def[symmetric] s3
    using cur
    by (cases res) (simp_all add: bnd_run g u dm send_interaction_response_state)
qed

text \<open>Every way \<open>buy_command\<close> can leave the state.\<close>

lemma buy_command_final:
  "snd (buy_command w body_json iid tok s) = s \<or>
   (\<exists>m. snd (buy_command w body_json iid tok s) = log_call (Requests (Callback iid tok m)) s) \<or>
   (\<exists>uid m. snd (buy_command w body_json iid tok s) =
              log_call (Requests (Callback iid tok m)) (log_call (GetItem uid) s)) \<or>
   (\<exists>uid item price s3.
       0 < price \<and> price \<le> balance_of s uid \<and>
       s3 = snd (send_dm_attempt w uid item price
                  (snd (update_user_tokens w uid (- price) (log_call (GetItem uid) s)))) \<and>
       (snd (buy_command w body_json iid tok s) = s3 \<or>
        (\<exists>m. snd (buy_command w body_json iid tok s) = log_call (Requests (Callback iid tok m)) s3)))"
proof (cases "member_user_id body_json")
  case (Inl e)
  then show ?thesis by (simp add: buy_command_state)
next
  case uid: (Inr user_id)
  show ?thesis
  proof (cases "first_option_value body_json")
    case (Inl e)
    then show ?thesis using uid by (simp add: buy_command_state)
  next
    case item: (Inr item)
    show ?thesis
    proof (cases "py_in_dict item shop_items")
      case (Inl e)
      then show ?thesis using uid item by (simp add: buy_command_state)
    next
      case known: (Inr known)
      show ?thesis
      proof (cases known)
        case False
        then have "snd (buy_command w body_json iid tok s) =
                     log_call (Requests (Callback iid tok (ChannelMessage (not_exist_message user_id item)))) s"
          using uid item known by (simp add: buy_command_state send_interaction_response_state)
        then show ?thesis by blast
      next
        case True
        then have "py_in_dict item shop_items = Inr True"
          using known by simp
        then obtain nm price where nm: "item = JStr nm" and pr: "map_of shop_items nm = Some price"
          using shop_known[of item] by auto
        have pos: "0 < price" using pr by (rule shop_price)
        have get: "py_dict_getitem shop_items item = Inr price"
          using pr nm by (simp add: shop_price)
        let ?cur = "if get_item_raises w user_id = None then balance_of s user_id else 0"
        show ?thesis
        proof (cases "price \<le> ?cur")
          case enough: True
          then have le: "price \<le> balance_of s user_id"
            using pos by (simp split: if_splits)
          from purchase_state[OF enough, of item iid tok]
          have "snd (buy_command w body_json iid tok s) =
                  snd (send_dm_attempt w user_id item price
                        (snd (update_user_tokens w user_id (- price) (log_call (GetItem user_id) s)))) \<or>
                snd (buy_command w body_json iid tok s) =
                  log_call (Requests (Callback iid tok (ChannelMessage (bought_message user_id item price))))
                    (snd (send_dm_attempt w user_id item price
                        (snd (update_user_tokens w user_id (- price) (log_call (GetItem user_id) s)))))"
            using uid item known True get by (simp add: buy_command_state)
          then show ?thesis using pos le by blast
        next
          case False
          then have "snd (buy_command w body_json iid tok s) =
                       log_call (Requests (Callback iid tok (ChannelMessage (not_enough_message user_id item))))
                         (log_call (GetItem user_id) s)"
            using uid item known True get
            by (simp add: buy_command_state bnd_run get_user_tokens_run send_interaction_response_state)
          then show ?thesis by blast
        qed
      qed
    qed
  qed
qed

lemma buy_command_table:
  "table (snd (buy_command w body_json iid tok s)) = table s \<or>
   (\<exists>uid price. 0 < price \<and> price \<le> balance_of s uid \<and>
      table (snd (buy_command w body_json iid tok s)) =
        (table s)(uid \<mapsto> Some (balance_of s uid - price)))"
  using buy_command_final[of w body_json iid tok s]
  by (elim disjE exE conjE)
     (auto simp: send_dm_attempt_table update_user_tokens_table)

lemma buy_command_nonnegative:
  assumes "0 \<le> balance_of s u"
  shows "0 \<le> balance_of (snd (buy_command w body_json iid tok s)) u"
  using buy_command_table[of w body_json iid tok s] assms
  by (auto simp: balance_of_def)

text \<open>
  C3. When the invoking user's balance is strictly below the catalogue price of the item,
  \<open>buy_command\<close> makes no balance write: its only calls are the balance read and the
  reply carrying the not-enough-tokens message, and the table is unchanged. Whatever the
  request and the world, a balance that is not negative before \<open>buy_command\<close> is not
  negative after it.
\<close>

theorem buy_rejected_below_price:
  "(member_user_id body_json = Inr user_id \<and>
    first_option_value body_json = Inr (JStr nm) \<and>
    map_of shop_items nm = Some price \<and>
    balance_of s user_id < price \<longrightarrow>
      table (snd (buy_command w body_json iid tok s)) = table s \<and>
      calls (snd (buy_command w body_json iid tok s)) =
        calls s @ [GetItem user_id,
                   Requests (Callback iid tok (ChannelMessage (not_enough_message user_id (JStr nm))))]) \<and>
   (\<forall>u. 0 \<le> balance_of s u \<longrightarrow> 0 \<le> balance_of (snd (buy_command w body_json iid tok s)) u)"
  using buy_command_rejected[of body_json user_id nm price s w iid tok]
        buy_command_nonnegative[of s _ w body_json iid tok]
  by simp

theorem buy_rejected_below_price_witness:
  "map_of shop_items ''item1'' = Some 10 \<and>
   balance_of (test_state 5) (JStr ''42'') = 5 \<and>
   table (snd (buy_command test_world buy_json (JStr ''9'') (JStr ''tok'') (test_state 5))) =
     table (test_state 5) \<and>
   calls (snd (buy_command test_world buy_json (JStr ''9'') (JStr ''tok'') (test_state 5))) =
     [GetItem (JStr ''42''),
      Requests (Callback (JStr ''9'') (JStr ''tok'')
        (ChannelMessage (not_enough_message (JStr ''42'') (JStr ''item1''))))] \<and>
   0 \<le> balance_of (snd (buy_command test_world buy_json (JStr ''9'') (JStr ''tok'') (test_state 5)))
         (JStr ''42'')"
proof -
  have p: "map_of shop_items ''item1'' = Some 10"
    by (simp add: shop_items_def)
  have b: "balance_of (test_state 5) (JStr ''42'') = 5"
    by (simp add: balance_of_def test_state_def)
  have c: "calls (test_state 5) = []"
    by (simp add: test_state_def)
  from buy_rejected_below_price[of buy_json "JStr ''42''" "''item1''" 10 "test_state 5"
         test_world "JStr ''9''" "JStr ''tok''"]
  show ?thesis
    using test_member_user_id(2) test_first_option_value(2) p b c by simp
qed

section \<open>A purchase whose notification fails\<close>

lemma buy_command_purchase_run:
  assumes uid: "member_user_id body_json = Inr user_id"
    and item: "first_option_value body_json = Inr (JStr nm)"
    and price: "map_of shop_items nm = Some price"
    and cur: "price \<le> (if get_item_raises w user_id = None then balance_of s user_id else 0)"
  shows "buy_command w body_json iid tok s =
           catch (bnd (send_dm_with_embed w user_id (JStr nm) price) (\<lambda>_.
                  send_interaction_response w iid tok
                    (ChannelMessage (bought_message user_id (JStr nm) price))))
             (\<lambda>e. if isinstance e KeyError then ret (error_response 400 ''Invalid item'') else raise e)
             (snd (update_user_tokens w user_id (- price) (log_call (GetItem user_id) s)))"
proof -
  let ?s1 = "log_call (GetItem user_id) s"
  have u: "update_user_tokens w user_id (- price) ?s1 =
             (Inr (), snd (update_user_tokens w user_id (- price) ?s1))"
    by (rule update_user_tokens_eq)
  show ?thesis
    unfolding buy_command_def
    apply (simp only: uid item bnd_lift_Inr shop_price(1,2)[OF price] if_True)
    apply (simp only: catch_run bnd_run get_user_tokens_run prod.case sum.case cur if_True)
    apply (subst u)
    apply (simp only: prod.case sum.case)
    apply (cases "send_dm_with_embed w user_id (JStr nm) price
                    (snd (update_user_tokens w user_id (- price) ?s1))")
    subgoal for res s3
      by (cases res) simp_all
    done
qed

lemma purchase_not_rolled_back:
  assumes uid: "member_user_id body_json = Inr user_id"
    and item: "first_option_value body_json = Inr (JStr nm)"
    and price: "map_of shop_items nm = Some price"
    and rd: "get_item_raises w user_id = None"
    and le: "price \<le> balance_of s user_id"
    and wr: "update_item_raises w user_id (- price) = None"
  shows "balance_of (snd (buy_command w body_json iid tok s)) user_id = balance_of s user_id - price"
proof -
  let ?s2 = "snd (update_user_tokens w user_id (- price) (log_call (GetItem user_id) s))"
  let ?s3 = "snd (send_dm_attempt w user_id (JStr nm) price ?s2)"
  have cur: "price \<le> (if get_item_raises w user_id = None then balance_of s user_id else 0)"
    using rd le by simp
  have known: "py_in_dict (JStr nm) shop_items = Inr True"
    and get: "py_dict_getitem shop_items (JStr nm) = Inr price"
    using price by (rule shop_price)+
  from purchase_state[OF cur, of "JStr nm" iid tok]
  have "snd (buy_command w body_json iid tok s) = ?s3 \<or>
        snd (buy_command w body_json iid tok s) =
          log_call (Requests (Callback iid tok (ChannelMessage (bought_message user_id (JStr nm) price)))) ?s3"
    using uid item known get by (simp add: buy_command_state)
  then have "table (snd (buy_command w body_json iid tok s)) = table ?s2"
    by (auto simp: send_dm_attempt_table)
  then show ?thesis
    using wr by (simp add: balance_of_def update_user_tokens_table)
qed

lemma purchase_confirmed:
  assumes uid: "member_user_id body_json = Inr user_id"
    and item: "first_option_value body_json = Inr (JStr nm)"
    and price: "map_of shop_items nm = Some price"
    and rd: "get_item_raises w user_id = None"
    and le: "price \<le> balance_of s user_id"
    and fails: "fst (send_dm_attempt w user_id (JStr nm) price s) = Inl e"
    and req: "isinstance e RequestException"
  shows "\<exists>tr. calls (snd (buy_command w body_json iid tok s)) =
                calls s @ tr @
                  [Requests (Callback iid tok (ChannelMessage (bought_message user_id (JStr nm) price)))]"
    and "requests_send w (Callback iid tok (ChannelMessage (bought_message user_id (JStr nm) price))) = Inr r
         \<Longrightarrow> raise_for_status r = Inr ()
         \<Longrightarrow> fst (buy_command w body_json iid tok s) =
               Inr \<lparr>statusCode = status_code r, headers = std_headers, body = Text (resp_text r)\<rparr>"
proof -
  let ?s2 = "snd (update_user_tokens w user_id (- price) (log_call (GetItem user_id) s))"
  let ?s3 = "snd (send_dm_attempt w user_id (JStr nm) price ?s2)"
  let ?cb = "Callback iid tok (ChannelMessage (bought_message user_id (JStr nm) price))"
  have cur: "price \<le> (if get_item_raises w user_id = None then balance_of s user_id else 0)"
    using rd le by simp
  have "fst (send_dm_attempt w user_id (JStr nm) price ?s2) = Inl e"
    using fails send_dm_attempt_fst[of w user_id "JStr nm" price ?s2 s] by simp
  then have "send_dm_attempt w user_id (JStr nm) price ?s2 = (Inl e, ?s3)"
    by (simp add: prod_eq_iff)
  then have dm: "send_dm_with_embed w user_id (JStr nm) price ?s2 = (Inr (), ?s3)"
    using req by (rule send_dm_with_embed_swallows)
  have run: "buy_command w body_json iid tok s =
               catch (send_interaction_response w iid tok
                        (ChannelMessage (bought_message user_id (JStr nm) price)))
                 (\<lambda>e. if isinstance e KeyError then ret (error_response 400 ''Invalid item'') else raise e)
                 ?s3"
    unfolding buy_command_purchase_run[OF uid item price cur]
    by (simp add: catch_run bnd_run dm)
  have "snd (buy_command w body_json iid tok s) = log_call (Requests ?cb) ?s3"
    unfolding run
    by (subst snd_catch) (simp_all add: send_interaction_response_state)
  moreover obtain tr where "calls ?s3 = calls ?s2 @ tr"
    using send_dm_attempt_calls[of w user_id "JStr nm" price ?s2] by blast
  ultimately have "calls (snd (buy_command w body_json iid tok s)) =
                     calls s @ ([GetItem user_id, UpdateItem user_id (- price)] @ tr) @ [Requests ?cb]"
    by (simp add: update_user_tokens_calls)
  then show "\<exists>tr. calls (snd (buy_command w body_json iid tok s)) = calls s @ tr @ [Requests ?cb]"
    by blast
  show "fst (buy_command w body_json iid tok s) =
          Inr \<lparr>statusCode = status_code r, headers = std_headers, body = Text (resp_text r)\<rparr>"
    if "requests_send w ?cb = Inr r" and "raise_for_status r = Inr ()"
    unfolding run using send_interaction_response_ok[OF that, of ?s3]
    by (simp add: catch_run)
qed

text \<open>
  C5, as the code has it. After a successful \<^verbatim>\<open>buy\<close> (known item, sufficient balance,
  read and write accepted by the store) a failed notification attempt never rolls the
  decrement back, whatever the failure. When the failure is a
  \<^verbatim>\<open>requests.RequestException\<close>, the command goes on to send the purchase confirmation
  as its last call and, when the platform accepts that reply, returns the platform's
  answer and no error response.
\<close>

theorem purchase_survives_request_failure:
  "member_user_id body_json = Inr user_id \<and>
   first_option_value body_json = Inr (JStr nm) \<and>
   map_of shop_items nm = Some price \<and>
   get_item_raises w user_id = None \<and>
   price \<le> balance_of s user_id \<and>
   update_item_raises w user_id (- price) = None \<and>
   fst (send_dm_attempt w user_id (JStr nm) price s) = Inl e \<longrightarrow>
     balance_of (snd (buy_command w body_json iid tok s)) user_id = balance_of s user_id - price \<and>
     (isinstance e RequestException \<longrightarrow>
        (\<exists>tr. calls (snd (buy_command w body_json iid tok s)) =
                calls s @ tr @
                  [Requests (Callback iid tok (ChannelMessage (bought_message user_id (JStr nm) price)))]) \<and>
        (\<forall>r. requests_send w (Callback iid tok (ChannelMessage (bought_message user_id (JStr nm) price))) = Inr r \<and>
             raise_for_status r = Inr () \<longrightarrow>
             fst (buy_command w body_json iid tok s) =
               Inr \<lparr>statusCode = status_code r, headers = std_headers, body = Text (resp_text r)\<rparr>))"
  using purchase_not_rolled_back[of body_json user_id nm price w s iid tok]
        purchase_confirmed[of body_json user_id nm price w s e iid tok]
  by blast

lemma test_shop_item1: "map_of shop_items ''item1'' = Some 10"
  by (simp add: shop_items_def)

lemma test_balance: "balance_of (test_state n) (JStr ''42'') = n"
  by (simp add: balance_of_def test_state_def)

lemma test_loads_no_channel: "test_loads no_channel_text = Some no_channel_json"
  by (simp add: test_loads_def no_channel_text_def ping_body_def balance_body_def buy_body_def
                submit_body_def channel_text_def)

lemma no_channel_attempt:
  "send_dm_attempt no_channel_world (JStr ''42'') (JStr ''item1'') 10 s =
     (Inl (Exn KeyError ''id'' None), log_call (Requests (CreateDM (JStr ''42''))) s)"
  by (simp add: send_dm_attempt_def requests_call_def bnd_run no_channel_world_def test_world_def
                ok_response_def raise_for_status_def sbind_def test_loads_no_channel
                no_channel_json_def)

lemma offline_attempt:
  "send_dm_attempt offline_dm_world (JStr ''42'') (JStr ''item1'') 10 s =
     (Inl (Exn ConnectionError ''connection refused'' None),
      log_call (Requests (CreateDM (JStr ''42''))) s)"
  by (simp add: send_dm_attempt_def requests_call_def bnd_run offline_dm_world_def test_world_def)

theorem purchase_survives_request_failure_witness:
  "fst (send_dm_attempt offline_dm_world (JStr ''42'') (JStr ''item1'') 10 (test_state 15)) =
     Inl (Exn ConnectionError ''connection refused'' None) \<and>
   isinstance (Exn ConnectionError ''connection refused'' None) RequestException \<and>
   balance_of (snd (buy_command offline_dm_world buy_json (JStr ''9'') (JStr ''tok'') (test_state 15)))
     (JStr ''42'') = 5 \<and>
   fst (buy_command offline_dm_world buy_json (JStr ''9'') (JStr ''tok'') (test_state 15)) =
     Inr \<lparr>statusCode = 204, headers = std_headers, body = Text []\<rparr>"
proof -
  let ?e = "Exn ConnectionError ''connection refused'' None"
  let ?cb = "Callback (JStr ''9'') (JStr ''tok'')
               (ChannelMessage (bought_message (JStr ''42'') (JStr ''item1'') 10))"
  have i: "isinstance ?e RequestException"
    by (simp add: isinstance_def)
  have w: "get_item_raises offline_dm_world (JStr ''42'') = None"
          "update_item_raises offline_dm_world (JStr ''42'') (- 10) = None"
          "requests_send offline_dm_world ?cb = Inr (ok_response 204 [] None [])"
    by (simp_all add: offline_dm_world_def test_world_def)
  have ok: "raise_for_status (ok_response 204 [] None []) = Inr ()"
    by (simp add: raise_for_status_def ok_response_def)
  from purchase_survives_request_failure[of buy_json "JStr ''42''" "''item1''" 10 offline_dm_world
         "test_state 15" ?e "JStr ''9''" "JStr ''tok''"]
  show ?thesis
    using test_member_user_id(2) test_first_option_value(2) test_shop_item1 test_balance[of 15]
          offline_attempt[of "test_state 15"] i w ok
    by (simp add: ok_response_def)
qed

text \<open>
  Where C5 fails as stated: the platform answers the channel request with a body that has
  no \<^verbatim>\<open>id\<close>, the notification attempt ends in a \<^verbatim>\<open>KeyError\<close>, and \<open>buy_command\<close>
  returns the error response 400 ``Invalid item'' after the balance went from 15 to 5.
\<close>

theorem notification_keyerror_fails_buy:
  "fst (send_dm_attempt no_channel_world (JStr ''42'') (JStr ''item1'') 10 (test_state 15)) =
     Inl (Exn KeyError ''id'' None) \<and>
   fst (buy_command no_channel_world buy_json (JStr ''9'') (JStr ''tok'') (test_state 15)) =
     Inr (error_response 400 ''Invalid item'') \<and>
   balance_of (snd (buy_command no_channel_world buy_json (JStr ''9'') (JStr ''tok'') (test_state 15)))
     (JStr ''42'') = 5"
proof -
  have cur: "(10::int) \<le> (if get_item_raises no_channel_world (JStr ''42'') = None
                          then balance_of (test_state 15) (JStr ''42'') else 0)"
    by (simp add: no_channel_world_def test_world_def test_balance)
  have k: "isinstance (Exn KeyError ''id'' None) KeyError"
          "\<not> isinstance (Exn KeyError ''id'' None) RequestException"
    by (simp_all add: isinstance_def)
  have w: "update_item_raises no_channel_world (JStr ''42'') (- 10) = None"
    by (simp add: no_channel_world_def test_world_def)
  have run: "buy_command no_channel_world buy_json (JStr ''9'') (JStr ''tok'') (test_state 15) =
          (Inr (error_response 400 ''Invalid item''),
           log_call (Requests (CreateDM (JStr ''42'')))
             (snd (update_user_tokens no_channel_world (JStr ''42'') (- 10)
                     (log_call (GetItem (JStr ''42'')) (test_state 15)))))"
    unfolding buy_command_purchase_run[OF test_member_user_id(2) test_first_option_value(2)
                test_shop_item1 cur]
    by (simp add: catch_run bnd_run send_dm_with_embed_def no_channel_attempt k)
  show ?thesis
    unfolding run by (simp add: no_channel_attempt balance_of_update w test_balance)
qed

section \<open>Fetching the image\<close>

lemma download_with_urllib_run:
  "download_image_with_urllib w url s = (urlopen_read w url, log_call (Urlopen url) s)"
  by (simp add: download_image_with_urllib_def urlopen_def catch_run split: sum.splits)

lemma download_first_call:
  "\<exists>tr. calls (snd (download_image w url s)) = calls s @ Requests (ImageGet url) # tr"
  by (simp add: download_image_def requests_call_def catch_run bnd_run raise_for_status_def
                download_with_urllib_run split: sum.splits)

lemma download_error_status:
  assumes "requests_send w (ImageGet url) = Inr r"
    and "400 \<le> status_code r \<and> status_code r < 600"
  shows "download_image w url s =
           (urlopen_read w url, log_call (Urlopen url) (log_call (Requests (ImageGet url)) s))"
  using assms
  by (simp add: download_image_def requests_call_def catch_run raise_for_status_def
                isinstance_def download_with_urllib_run)

lemma download_image_content:
  assumes "requests_send w (ImageGet url) = Inr r"
    and "\<not> (400 \<le> status_code r \<and> status_code r < 600)"
    and "str_contains (case content_type r of Some t \<Rightarrow> t | None \<Rightarrow> []) ''image''"
  shows "download_image w url s = (Inr (content r), log_call (Requests (ImageGet url)) s)"
  using assms
  by (auto simp: download_image_def requests_call_def catch_run raise_for_status_def)

lemma download_not_image:
  assumes "requests_send w (ImageGet url) = Inr r"
    and "\<not> (400 \<le> status_code r \<and> status_code r < 600)"
    and "\<not> str_contains (case content_type r of Some t \<Rightarrow> t | None \<Rightarrow> []) ''image''"
  shows "download_image w url s =
           (Inl (Exn ValueError (''Unexpected content type: '' @
                   (case content_type r of Some t \<Rightarrow> t | None \<Rightarrow> ''None'')) None),
            log_call (Requests (ImageGet url)) s)"
  using assms
  by (auto simp: download_image_def requests_call_def catch_run raise_for_status_def
                 isinstance_def)

text \<open>
  When \<^verbatim>\<open>requests.get\<close> itself raises a \<^verbatim>\<open>RequestException\<close>, the handler reads the
  unbound local \<^verbatim>\<open>response\<close> before it reaches the fallback, and the second transport
  is not tried.
\<close>

lemma download_connection_error:
  assumes "requests_send w (ImageGet url) = Inl e" and "isinstance e RequestException"
  shows "\<exists>m. download_image w url s =
               (Inl (Exn UnboundLocalError m None), log_call (Requests (ImageGet url)) s)"
  using assms by (simp add: download_image_def requests_call_def)

lemma download_unreachable:
  "fst (download_image unreachable_world u s) =
     Inl (Exn UnboundLocalError ''local variable response referenced before assignment'' None) \<and>
   calls (snd (download_image unreachable_world u s)) = calls s @ [Requests (ImageGet u)] \<and>
   urlopen_read unreachable_world u = Inr [137, 80, 78, 71]"
  by (simp add: download_image_def requests_call_def unreachable_world_def test_world_def
                isinstance_def)

text \<open>
  C7, as the code has it. The first call of a download is always the primary fetch. When
  the primary fetch is answered with a 4xx or 5xx status, the second transport is tried
  and its outcome is the outcome of the download. When it is answered with another
  status the second transport is not tried: the download returns the content if the
  content type contains \<open>image\<close> and fails with a \<^verbatim>\<open>ValueError\<close> if it does not.
\<close>

theorem download_fallback_on_error_status:
  "(\<exists>tr. calls (snd (download_image w url s)) = calls s @ Requests (ImageGet url) # tr) \<and>
   (requests_send w (ImageGet url) = Inr r \<longrightarrow>
      download_image w url s =
        (if 400 \<le> status_code r \<and> status_code r < 600
         then (urlopen_read w url, log_call (Urlopen url) (log_call (Requests (ImageGet url)) s))
         else if str_contains (case content_type r of Some t \<Rightarrow> t | None \<Rightarrow> []) ''image''
         then (Inr (content r), log_call (Requests (ImageGet url)) s)
         else (Inl (Exn ValueError (''Unexpected content type: '' @
                      (case content_type r of Some t \<Rightarrow> t | None \<Rightarrow> ''None'')) None),
               log_call (Requests (ImageGet url)) s)))"
  using download_first_call[of w url s] download_error_status[of w url r s]
        download_image_content[of w url r s] download_not_image[of w url r s]
  by simp

theorem download_fallback_witness:
  "requests_send not_found_world (ImageGet (JStr ''https://example.org/a.png'')) =
     Inr (ok_response 404 ''Not Found'' (Some ''text/plain'') []) \<and>
   download_image not_found_world (JStr ''https://example.org/a.png'') (test_state 15) =
     (Inr [137, 80, 78, 71],
      log_call (Urlopen (JStr ''https://example.org/a.png''))
        (log_call (Requests (ImageGet (JStr ''https://example.org/a.png''))) (test_state 15)))"
proof -
  let ?url = "JStr ''https://example.org/a.png''"
  have a: "requests_send not_found_world (ImageGet ?url) =
             Inr (ok_response 404 ''Not Found'' (Some ''text/plain'') [])"
    by (simp add: not_found_world_def test_world_def)
  have b: "urlopen_read not_found_world ?url = Inr [137, 80, 78, 71]"
    by (simp add: not_found_world_def test_world_def)
  from download_fallback_on_error_status[of not_found_world ?url "test_state 15"
         "ok_response 404 ''Not Found'' (Some ''text/plain'') []"]
  show ?thesis
    using a b by (simp add: ok_response_def)
qed

text \<open>
  Where C7 fails as stated: the primary fetch is answered with a page that is not an
  image, the download fails, and the second transport, which would have returned
  bytes, is never tried.
\<close>

theorem download_fails_without_fallback:
  "fst (download_image html_world (JStr ''https://example.org/a.png'') (test_state 15)) =
     Inl (Exn ValueError ''Unexpected content type: text/html'' None) \<and>
   calls (snd (download_image html_world (JStr ''https://example.org/a.png'') (test_state 15))) =
     [Requests (ImageGet (JStr ''https://example.org/a.png''))] \<and>
   urlopen_read html_world (JStr ''https://example.org/a.png'') = Inr [60, 104]"
proof -
  let ?url = "JStr ''https://example.org/a.png''"
  let ?r = "ok_response 200 ''<html></html>'' (Some ''text/html'') [60, 104]"
  have a: "requests_send html_world (ImageGet ?url) = Inr ?r"
    by (simp add: html_world_def test_world_def)
  have b: "\<not> (400 \<le> status_code ?r \<and> status_code ?r < 600)"
    by (simp add: ok_response_def)
  have c: "\<not> str_contains (case content_type ?r of Some t \<Rightarrow> t | None \<Rightarrow> []) ''image''"
    by (simp add: ok_response_def)
  show ?thesis
    using download_not_image[OF a b c, of "test_state 15"]
    by (simp add: ok_response_def html_world_def test_world_def test_state_def)
qed

section \<open>A resource that is not an image\<close>

lemma submit_image_not_image:
  assumes uid: "member_user_id body_json = Inr user_id"
    and url: "first_option_value body_json = Inr url"
    and get: "requests_send w (ImageGet url) = Inr r"
    and ok: "\<not> (400 \<le> status_code r \<and> status_code r < 600)"
    and ct: "\<not> str_contains (case content_type r of Some t \<Rightarrow> t | None \<Rightarrow> []) ''image''"
  shows "submit_image_command w body_json iid tok key s =
           (Inr (error_response 500 ''Failed to analyze the image''),
            log_call (Requests (ImageGet url)) s)"
proof -
  have "submit_image_attempt w body_json iid tok key s =
          (Inl (Exn ValueError (''Unexpected content type: '' @
                   (case content_type r of Some t \<Rightarrow> t | None \<Rightarrow> ''None'')) None),
           log_call (Requests (ImageGet url)) s)"
    by (simp add: submit_image_attempt_def uid url bnd_run download_not_image[OF get ok ct])
  then show ?thesis
    by (simp add: submit_image_command_def catch_run isinstance_def)
qed

text \<open>
  C6, as the code has it. When the downloaded resource is answered without an error
  status and its content type does not contain \<open>image\<close>, \<open>submit_image_command\<close>
  returns the error envelope with status 500 and the message ``Failed to analyze the
  image''; its only call is the fetch: no reply is posted and the store is not touched.
\<close>

theorem non_image_is_error_500:
  "member_user_id body_json = Inr user_id \<and>
   first_option_value body_json = Inr url \<and>
   requests_send w (ImageGet url) = Inr r \<and>
   \<not> (400 \<le> status_code r \<and> status_code r < 600) \<and>
   \<not> str_contains (case content_type r of Some t \<Rightarrow> t | None \<Rightarrow> []) ''image'' \<longrightarrow>
     submit_image_command w body_json iid tok key s =
       (Inr (error_response 500 ''Failed to analyze the image''),
        log_call (Requests (ImageGet url)) s)"
  using submit_image_not_image[of body_json user_id url w r iid tok key s] by blast

lemma html_response:
  "requests_send html_world (ImageGet u) =
     Inr (ok_response 200 ''<html></html>'' (Some ''text/html'') [60, 104])"
  "\<not> (400 \<le> status_code (ok_response 200 ''<html></html>'' (Some ''text/html'') [60, 104]) \<and>
      status_code (ok_response 200 ''<html></html>'' (Some ''text/html'') [60, 104]) < 600)"
  "\<not> str_contains (case content_type (ok_response 200 ''<html></html>'' (Some ''text/html'') [60, 104])
                     of Some t \<Rightarrow> t | None \<Rightarrow> []) ''image''"
  by (simp_all add: html_world_def test_world_def ok_response_def)

theorem non_image_is_error_500_witness:
  "statusCode (error_response 500 ''Failed to analyze the image'') = 500 \<and>
   submit_image_command html_world submit_json (JStr ''9'') (JStr ''tok'') None (test_state 0) =
     (Inr (error_response 500 ''Failed to analyze the image''),
      log_call (Requests (ImageGet (JStr ''https://example.org/a.png''))) (test_state 0))"
  using non_image_is_error_500[of submit_json "JStr ''42''" "JStr ''https://example.org/a.png''"
          html_world "ok_response 200 ''<html></html>'' (Some ''text/html'') [60, 104]"
          "JStr ''9''" "JStr ''tok''" None "test_state 0"]
        test_member_user_id(1) test_first_option_value(1) html_response
  by (simp add: error_response_def)

text \<open>
  Where C6 fails as stated: the URL serves an HTML page, and the command answers with
  the 500 error envelope; no callback, hence no chat reply, is made.
\<close>

theorem non_image_not_a_chat_reply:
  "fst (submit_image_command html_world submit_json (JStr ''9'') (JStr ''tok'') (Some ''sk-test'')
          (test_state 15)) =
     Inr \<lparr>statusCode = 500, headers = std_headers,
          body = JsonDumps (JObj [(''error'', JStr ''Failed to analyze the image'')])\<rparr> \<and>
   calls (snd (submit_image_command html_world submit_json (JStr ''9'') (JStr ''tok'') (Some ''sk-test'')
                 (test_state 15))) =
     [Requests (ImageGet (JStr ''https://example.org/a.png''))]"
  using submit_image_not_image[OF test_member_user_id(1) test_first_option_value(1) html_response,
          of "JStr ''9''" "JStr ''tok''" "Some ''sk-test''" "test_state 15"]
  by (simp add: error_response_def test_state_def)

section \<open>The order of the calls\<close>

lemma precedes_no_later:
  assumes "\<forall>c \<in> set tr. \<not> Q c"
  shows "precedes P Q tr"
  using assms by (simp add: precedes_def)

lemma precedes_Cons_first:
  assumes "P c" and "\<not> Q c" and "\<forall>x \<in> set tr. \<not> P x"
  shows "precedes P Q (c # tr)"
  unfolding precedes_def
proof (intro conjI allI impI)
  fix j
  assume j: "j < length (c # tr)" and q: "Q ((c # tr) ! j)"
  have "j \<noteq> 0" using q assms(2) by (cases j) auto
  then have "0 < j \<and> P ((c # tr) ! 0)" using assms(1) by simp
  then show "\<exists>i<j. P ((c # tr) ! i)" by blast
next
  fix i j
  assume i: "i < length (c # tr)" and j: "j < length (c # tr)"
    and pq: "P ((c # tr) ! i) \<and> Q ((c # tr) ! j)"
  have "i = 0"
  proof (cases i)
    case 0
    then show ?thesis .
  next
    case (Suc k)
    then have "tr ! k \<in> set tr" using i by simp
    then show ?thesis using pq Suc assms(3) by simp
  qed
  moreover have "j \<noteq> 0" using pq assms(2) by (cases j) auto
  ultimately show "i < j" by simp
qed

lemma precedes_Cons_skip:
  assumes "\<not> P c" and "\<not> Q c" and "precedes P Q tr"
  shows "precedes P Q (c # tr)"
  unfolding precedes_def
proof (intro conjI allI impI)
  fix j
  assume j: "j < length (c # tr)" and q: "Q ((c # tr) ! j)"
  then obtain k where k: "j = Suc k" using assms(2) by (cases j) auto
  then have "k < length tr" "Q (tr ! k)" using j q by simp_all
  then obtain i where "i < k" "P (tr ! i)"
    using assms(3) unfolding precedes_def by blast
  then have "Suc i < j \<and> P ((c # tr) ! Suc i)" using k by simp
  then show "\<exists>i<j. P ((c # tr) ! i)" by blast
next
  fix i j
  assume i: "i < length (c # tr)" and j: "j < length (c # tr)"
    and pq: "P ((c # tr) ! i) \<and> Q ((c # tr) ! j)"
  obtain i' where i': "i = Suc i'" using pq assms(1) by (cases i) auto
  obtain j' where j': "j = Suc j'" using pq assms(2) by (cases j) auto
  have "i' < length tr" "j' < length tr" "P (tr ! i') \<and> Q (tr ! j')"
    using i j pq i' j' by simp_all
  then have "i' < j'" using assms(3) unfolding precedes_def by blast
  then show "i < j" using i' j' by simp
qed

lemma precedes_append_skip:
  assumes "\<forall>c \<in> set pre. \<not> P c \<and> \<not> Q c" and "precedes P Q tr"
  shows "precedes P Q (pre @ tr)"
  using assms by (induction pre) (simp_all add: precedes_Cons_skip)

lemma precedes_later:
  assumes "precedes P Q tr" and "j < length tr" and "Q (tr ! j)"
  shows "\<exists>i<j. P (tr ! i)"
  using assms unfolding precedes_def by blast

lemma call_kinds [simp]:
  "is_read (GetItem u)" "\<not> is_read (UpdateItem u a)" "\<not> is_read (Requests q)" "\<not> is_read (Urlopen url)"
  "\<not> is_write (GetItem u)" "is_write (UpdateItem u a)" "\<not> is_write (Requests q)" "\<not> is_write (Urlopen url)"
  "\<not> is_notification (GetItem u)" "\<not> is_notification (UpdateItem u a)"
  "\<not> is_notification (Urlopen url)"
  "is_notification (Requests (CreateDM u))" "is_notification (Requests (SendDM ch i p))"
  "\<not> is_notification (Requests (Callback iid tok m))"
  "\<not> is_notification (Requests (ChatCompletion k b))"
  "\<not> is_notification (Requests (ImageGet url))"
  by (simp_all add: is_read_def is_write_def is_notification_def)

lemma notification_not_store:
  assumes "is_notification c"
  shows "\<not> is_read c" and "\<not> is_write c"
  using assms by (cases c; simp add: is_notification_def is_read_def is_write_def)+

lemma buy_command_calls:
  "\<exists>tr. calls (snd (buy_command w body_json iid tok s)) = calls s @ tr \<and>
        (tr = [] \<or>
         (\<exists>m. tr = [Requests (Callback iid tok m)]) \<or>
         (\<exists>uid m. tr = [GetItem uid, Requests (Callback iid tok m)]) \<or>
         (\<exists>uid a ntr rest. tr = GetItem uid # UpdateItem uid a # ntr @ rest \<and>
             (\<forall>c \<in> set ntr. is_notification c) \<and>
             (rest = [] \<or> (\<exists>m. rest = [Requests (Callback iid tok m)]))))"
proof -
  let ?s' = "snd (buy_command w body_json iid tok s)"
  from buy_command_final[of w body_json iid tok s]
  consider (a) "?s' = s"
    | (b) m where "?s' = log_call (Requests (Callback iid tok m)) s"
    | (c) uid m where "?s' = log_call (Requests (Callback iid tok m)) (log_call (GetItem uid) s)"
    | (d) uid item price s3 where
        "s3 = snd (send_dm_attempt w uid item price
                  (snd (update_user_tokens w uid (- price) (log_call (GetItem uid) s))))"
        "?s' = s3 \<or> (\<exists>m. ?s' = log_call (Requests (Callback iid tok m)) s3)"
    by blast
  then show ?thesis
  proof cases
    case a
    then show ?thesis by simp
  next
    case b
    then show ?thesis by simp
  next
    case c
    then show ?thesis by simp
  next
    case d
    obtain ntr where ntr: "calls s3 = calls s @ [GetItem uid, UpdateItem uid (- price)] @ ntr"
      and nn: "\<forall>c \<in> set ntr. is_notification c"
      using send_dm_attempt_calls[of w uid item price
              "snd (update_user_tokens w uid (- price) (log_call (GetItem uid) s))"] d(1)
      by (auto simp: update_user_tokens_calls)
    from d(2) show ?thesis
    proof
      assume "?s' = s3"
      then have "calls ?s' = calls s @ (GetItem uid # UpdateItem uid (- price) # ntr @ [])"
        using ntr by simp
      then show ?thesis using nn by blast
    next
      assume "\<exists>m. ?s' = log_call (Requests (Callback iid tok m)) s3"
      then obtain m where "?s' = log_call (Requests (Callback iid tok m)) s3" by blast
      then have "calls ?s' =
                   calls s @ (GetItem uid # UpdateItem uid (- price) # ntr @ [Requests (Callback iid tok m)])"
        using ntr by simp
      then show ?thesis using nn by blast
    qed
  qed
qed

lemma buy_command_order:
  "\<exists>tr. calls (snd (buy_command w body_json iid tok s)) = calls s @ tr \<and>
        precedes is_read is_write tr \<and> precedes is_write is_notification tr"
proof -
  obtain tr where tr: "calls (snd (buy_command w body_json iid tok s)) = calls s @ tr"
    and shape: "tr = [] \<or>
         (\<exists>m. tr = [Requests (Callback iid tok m)]) \<or>
         (\<exists>uid m. tr = [GetItem uid, Requests (Callback iid tok m)]) \<or>
         (\<exists>uid a ntr rest. tr = GetItem uid # UpdateItem uid a # ntr @ rest \<and>
             (\<forall>c \<in> set ntr. is_notification c) \<and>
             (rest = [] \<or> (\<exists>m. rest = [Requests (Callback iid tok m)])))"
    using buy_command_calls[of w body_json iid tok s] by blast
  have "precedes is_read is_write tr \<and> precedes is_write is_notification tr"
    using shape
  proof (elim disjE exE conjE)
    assume "tr = []"
    then show ?thesis by (simp add: precedes_no_later)
  next
    fix m assume "tr = [Requests (Callback iid tok m)]"
    then show ?thesis by (simp add: precedes_no_later)
  next
    fix uid m assume "tr = [GetItem uid, Requests (Callback iid tok m)]"
    then show ?thesis by (simp add: precedes_no_later)
  next
    fix uid a ntr rest
    assume t: "tr = GetItem uid # UpdateItem uid a # ntr @ rest"
      and nn: "\<forall>c \<in> set ntr. is_notification c"
      and "rest = []"
    have "\<forall>x \<in> set (UpdateItem uid a # ntr @ rest). \<not> is_read x"
      using nn \<open>rest = []\<close> by (auto dest: notification_not_store)
    moreover have "\<forall>x \<in> set (ntr @ rest). \<not> is_write x"
      using nn \<open>rest = []\<close> by (auto dest: notification_not_store)
    ultimately show ?thesis
      unfolding t by (simp add: precedes_Cons_first precedes_Cons_skip)
  next
    fix uid a ntr rest m
    assume t: "tr = GetItem uid # UpdateItem uid a # ntr @ rest"
      and nn: "\<forall>c \<in> set ntr. is_notification c"
      and r: "rest = [Requests (Callback iid tok m)]"
    have "\<forall>x \<in> set (UpdateItem uid a # ntr @ rest). \<not> is_read x"
      using nn r by (auto dest: notification_not_store)
    moreover have "\<forall>x \<in> set (ntr @ rest). \<not> is_write x"
      using nn r by (auto dest: notification_not_store)
    ultimately show ?thesis
      unfolding t by (simp add: precedes_Cons_first precedes_Cons_skip)
  qed
  then show ?thesis using tr by blast
qed

lemma download_calls:
  "\<exists>dtr. calls (snd (download_image w url s)) = calls s @ dtr \<and>
         (\<forall>c \<in> set dtr. \<not> is_read c \<and> \<not> is_write c \<and> \<not> is_notification c)"
  by (simp add: download_image_def requests_call_def catch_run bnd_run raise_for_status_def
                download_with_urllib_run split: sum.splits)

lemma credit_state:
  "snd (bnd (update_user_tokens w uid a) (\<lambda>_.
        bnd (get_user_tokens w uid) (\<lambda>new_balance.
        send_interaction_response w iid tok (M new_balance))) s) =
     log_call (Requests (Callback iid tok
                 (M (if get_item_raises w uid = None
                     then balance_of (snd (update_user_tokens w uid a s)) uid else 0))))
       (log_call (GetItem uid) (snd (update_user_tokens w uid a s)))"
  by (subst bnd_run, subst update_user_tokens_eq)
     (simp add: bnd_run get_user_tokens_run send_interaction_response_state)

text \<open>Every way \<open>submit_image_command\<close> can leave the calls of the state.\<close>

lemma submit_image_calls:
  "\<exists>tr pre. calls (snd (submit_image_command w body_json iid tok key s)) = calls s @ tr \<and>
        (\<forall>c \<in> set pre. \<not> is_read c \<and> \<not> is_write c \<and> \<not> is_notification c) \<and>
        (tr = pre \<or>
         (\<exists>uid a m. tr = pre @ [UpdateItem uid a, GetItem uid, Requests (Callback iid tok m)]))"
proof -
  let ?s' = "snd (submit_image_command w body_json iid tok key s)"
  have st: "?s' = snd (submit_image_attempt w body_json iid tok key s)"
    unfolding submit_image_command_def by (rule snd_catch) (simp split: option.splits)
  have trivial: ?thesis if "?s' = s"
  proof -
    have "calls ?s' = calls s @ [] \<and>
          (\<forall>c \<in> set ([]::call list). \<not> is_read c \<and> \<not> is_write c \<and> \<not> is_notification c)"
      using that by simp
    then show ?thesis by blast
  qed
  show ?thesis
  proof (cases "member_user_id body_json")
    case (Inl e)
    then have "?s' = s" by (simp add: st submit_image_attempt_def)
    then show ?thesis by (rule trivial)
  next
    case uid: (Inr user_id)
    show ?thesis
    proof (cases "first_option_value body_json")
      case (Inl e)
      then have "?s' = s" using uid by (simp add: st submit_image_attempt_def)
      then show ?thesis by (rule trivial)
    next
      case url: (Inr url)
      obtain dres s1 where dl: "download_image w url s = (dres, s1)"
        by (cases "download_image w url s") auto
      obtain dtr where dtr: "calls s1 = calls s @ dtr"
        and dn: "\<forall>c \<in> set dtr. \<not> is_read c \<and> \<not> is_write c \<and> \<not> is_notification c"
        using download_calls[of w url s] dl by auto
      show ?thesis
      proof (cases dres)
        case (Inl e)
        then have "?s' = s1" using uid url dl by (simp add: st submit_image_attempt_def bnd_run)
        then have "calls ?s' = calls s @ dtr" using dtr by simp
        then show ?thesis using dn by blast
      next
        case img: (Inr img)
        let ?s2 = "log_call (Requests (ChatCompletion key (encode_image img))) s1"
        let ?pre = "dtr @ [Requests (ChatCompletion key (encode_image img))]"
        have pn: "\<forall>c \<in> set ?pre. \<not> is_read c \<and> \<not> is_write c \<and> \<not> is_notification c"
          using dn by simp
        have c2: "calls ?s2 = calls s @ ?pre" using dtr by simp
        let ?amount = "sbind (requests_send w (ChatCompletion key (encode_image img))) (\<lambda>r.
                       sbind (raise_for_status r) (\<lambda>_.
                       sbind (response_json w r) (\<lambda>result.
                       sbind (description_of result) (\<lambda>description.
                       sbind (extract_tokens_from_description description) (\<lambda>a.
                       Inr (description, a))))))"
        show ?thesis
        proof (cases ?amount)
          case (Inl e)
          then have "?s' = ?s2"
            using uid url dl img
            by (simp add: st submit_image_attempt_def bnd_run requests_call_def sbind_def
                     split: sum.splits)
          then have "calls ?s' = calls s @ ?pre" using c2 by simp
          then show ?thesis using pn by blast
        next
          case (Inr da)
          obtain description a where da: "da = (description, a)" by (cases da) auto
          obtain r result where post: "requests_send w (ChatCompletion key (encode_image img)) = Inr r"
            and ok: "raise_for_status r = Inr ()"
            and js: "response_json w r = Inr result"
            and desc: "description_of result = Inr description"
            and ext: "extract_tokens_from_description description = Inr a"
            using Inr da by (auto simp: sbind_def split: sum.splits)
          have "submit_image_attempt w body_json iid tok key s =
                  bnd (update_user_tokens w user_id a) (\<lambda>_.
                        bnd (get_user_tokens w user_id) (\<lambda>new_balance.
                        send_interaction_response w iid tok
                          (ChannelMessage (earned_message user_id description a new_balance)))) ?s2"
            unfolding submit_image_attempt_def
            apply (simp only: uid url bnd_lift_Inr)
            apply (subst bnd_run)
            apply (simp only: dl img prod.case sum.case)
            apply (subst bnd_run)
            apply (simp only: requests_call_def post prod.case sum.case)
            apply (simp only: ok js desc ext bnd_lift_Inr)
            done
          then have "?s' = snd (bnd (update_user_tokens w user_id a) (\<lambda>_.
                        bnd (get_user_tokens w user_id) (\<lambda>new_balance.
                        send_interaction_response w iid tok
                          (ChannelMessage (earned_message user_id description a new_balance)))) ?s2)"
            by (simp only: st)
          then have "\<exists>m. ?s' = log_call (Requests (Callback iid tok m))
                              (log_call (GetItem user_id) (snd (update_user_tokens w user_id a ?s2)))"
            by (simp only: credit_state) blast
          then obtain m where "calls ?s' =
               calls s @ ?pre @ [UpdateItem user_id a, GetItem user_id, Requests (Callback iid tok m)]"
            using c2 by (auto simp: update_user_tokens_calls)
          then show ?thesis using pn by blast
        qed
      qed
    qed
  qed
qed

lemma submit_image_order:
  "\<exists>tr. calls (snd (submit_image_command w body_json iid tok key s)) = calls s @ tr \<and>
        precedes is_write is_read tr \<and> (\<forall>c \<in> set tr. \<not> is_notification c)"
proof -
  obtain tr pre where tr: "calls (snd (submit_image_command w body_json iid tok key s)) = calls s @ tr"
    and pn: "\<forall>c \<in> set pre. \<not> is_read c \<and> \<not> is_write c \<and> \<not> is_notification c"
    and shape: "tr = pre \<or>
         (\<exists>uid a m. tr = pre @ [UpdateItem uid a, GetItem uid, Requests (Callback iid tok m)])"
    using submit_image_calls[of w body_json iid tok key s] by blast
  have "precedes is_write is_read tr \<and> (\<forall>c \<in> set tr. \<not> is_notification c)"
    using shape
  proof (elim disjE exE)
    assume "tr = pre"
    then show ?thesis using pn by (simp add: precedes_no_later)
  next
    fix uid a m
    assume t: "tr = pre @ [UpdateItem uid a, GetItem uid, Requests (Callback iid tok m)]"
    have "precedes is_write is_read [UpdateItem uid a, GetItem uid, Requests (Callback iid tok m)]"
      by (rule precedes_Cons_first) simp_all
    then have "precedes is_write is_read tr"
      unfolding t using pn by (intro precedes_append_skip) simp_all
    then show ?thesis using pn t by simp
  qed
  then show ?thesis using tr by blast
qed

lemma test_loads_channel: "test_loads channel_text = Some channel_json"
  by (simp add: test_loads_def channel_text_def ping_body_def balance_body_def buy_body_def
                submit_body_def)

lemma test_dm_attempt:
  "send_dm_attempt test_world (JStr ''42'') (JStr ''item1'') 10 s =
     (Inr (), log_call (Requests (SendDM (JStr ''777'') (JStr ''item1'') 10))
                (log_call (Requests (CreateDM (JStr ''42''))) s))"
  by (simp add: send_dm_attempt_def requests_call_def bnd_run test_world_def ok_response_def
                raise_for_status_def sbind_def test_loads_channel channel_json_def)

lemma test_buy_calls:
  "calls (snd (buy_command test_world buy_json (JStr ''9'') (JStr ''tok'') (test_state 15))) =
     [GetItem (JStr ''42''), UpdateItem (JStr ''42'') (- 10),
      Requests (CreateDM (JStr ''42'')),
      Requests (SendDM (JStr ''777'') (JStr ''item1'') 10),
      Requests (Callback (JStr ''9'') (JStr ''tok'')
        (ChannelMessage (bought_message (JStr ''42'') (JStr ''item1'') 10)))]"
proof -
  have cur: "(10::int) \<le> (if get_item_raises test_world (JStr ''42'') = None
                          then balance_of (test_state 15) (JStr ''42'') else 0)"
    by (simp add: test_world_def test_balance)
  have dm: "send_dm_with_embed test_world (JStr ''42'') (JStr ''item1'') 10 s =
              (Inr (), log_call (Requests (SendDM (JStr ''777'') (JStr ''item1'') 10))
                         (log_call (Requests (CreateDM (JStr ''42''))) s))" for s
    by (simp add: send_dm_with_embed_def catch_run test_dm_attempt)
  have c0: "calls (test_state 15) = []"
    by (simp add: test_state_def)
  have "snd (buy_command test_world buy_json (JStr ''9'') (JStr ''tok'') (test_state 15)) =
          log_call (Requests (Callback (JStr ''9'') (JStr ''tok'')
                      (ChannelMessage (bought_message (JStr ''42'') (JStr ''item1'') 10))))
            (log_call (Requests (SendDM (JStr ''777'') (JStr ''item1'') 10))
              (log_call (Requests (CreateDM (JStr ''42'')))
                (snd (update_user_tokens test_world (JStr ''42'') (- 10)
                        (log_call (GetItem (JStr ''42'')) (test_state 15))))))"
    unfolding buy_command_purchase_run[OF test_member_user_id(2) test_first_option_value(2)
                test_shop_item1 cur]
    by (subst snd_catch) (simp_all add: bnd_run dm send_interaction_response_state)
  then show ?thesis
    by (simp add: update_user_tokens_calls c0)
qed

lemma test_submit_calls:
  "calls (snd (submit_image_command test_world submit_json (JStr ''9'') (JStr ''tok'')
                 (Some ''sk-test'') (test_state 15))) =
     [Requests (ImageGet (JStr ''https://example.org/a.png'')),
      Requests (ChatCompletion (Some ''sk-test'') (encode_image [137, 80, 78, 71])),
      UpdateItem (JStr ''42'') 5,
      GetItem (JStr ''42''),
      Requests (Callback (JStr ''9'') (JStr ''tok'')
        (ChannelMessage (earned_message (JStr ''42'') (JStr glass_metal_text) 5 20)))]"
proof -
  let ?url = "JStr ''https://example.org/a.png''"
  let ?r = "ok_response 200 chat_text (Some ''application/json'') []"
  let ?s1 = "log_call (Requests (ImageGet ?url)) (test_state 15)"
  let ?s2 = "log_call (Requests (ChatCompletion (Some ''sk-test'') (encode_image [137, 80, 78, 71]))) ?s1"
  have post: "requests_send test_world (ChatCompletion (Some ''sk-test'') (encode_image [137, 80, 78, 71])) = Inr ?r"
    by (simp add: test_world_def)
  have ok: "raise_for_status ?r = Inr ()"
    by (simp add: raise_for_status_def ok_response_def)
  have js: "response_json test_world ?r = Inr chat_json"
    by (simp add: test_world_def ok_response_def test_loads_chat)
  have w: "get_item_raises test_world (JStr ''42'') = None"
          "update_item_raises test_world (JStr ''42'') 5 = None"
    by (simp_all add: test_world_def)
  have c0: "calls (test_state 15) = []"
    by (simp add: test_state_def)
  have "submit_image_attempt test_world submit_json (JStr ''9'') (JStr ''tok'') (Some ''sk-test'')
          (test_state 15) =
        bnd (update_user_tokens test_world (JStr ''42'') 5) (\<lambda>_.
          bnd (get_user_tokens test_world (JStr ''42'')) (\<lambda>new_balance.
          send_interaction_response test_world (JStr ''9'') (JStr ''tok'')
            (ChannelMessage (earned_message (JStr ''42'') (JStr glass_metal_text) 5 new_balance)))) ?s2"
    unfolding submit_image_attempt_def
    apply (simp only: test_member_user_id test_first_option_value bnd_lift_Inr)
    apply (subst bnd_run)
    apply (simp only: test_download prod.case sum.case)
    apply (subst bnd_run)
    apply (simp only: requests_call_def post prod.case sum.case)
    apply (simp only: ok js test_description extract_glass_metal bnd_lift_Inr)
    done
  then have "snd (submit_image_command test_world submit_json (JStr ''9'') (JStr ''tok'')
                    (Some ''sk-test'') (test_state 15)) =
          log_call (Requests (Callback (JStr ''9'') (JStr ''tok'')
                 (ChannelMessage (earned_message (JStr ''42'') (JStr glass_metal_text) 5
                    (if get_item_raises test_world (JStr ''42'') = None
                     then balance_of (snd (update_user_tokens test_world (JStr ''42'') 5 ?s2)) (JStr ''42'')
                     else 0)))))
            (log_call (GetItem (JStr ''42'')) (snd (update_user_tokens test_world (JStr ''42'') 5 ?s2)))"
    unfolding submit_image_command_def
    by (subst snd_catch) (simp_all add: credit_state split: option.splits)
  then show ?thesis
    by (simp add: w balance_of_update update_user_tokens_calls test_balance c0)
qed

text \<open>
  C8, as the code has it. Within every request, \<open>buy_command\<close> reads the balance
  strictly before it writes it and writes it strictly before any notification attempt.
  \<open>submit_image_command\<close> writes the balance strictly before it reads it (the new
  balance is read back after the credit) and attempts no notification.
\<close>

theorem adapter_call_order:
  "(\<exists>tr. calls (snd (buy_command w body_json iid tok s)) = calls s @ tr \<and>
         precedes is_read is_write tr \<and> precedes is_write is_notification tr) \<and>
   (\<exists>tr. calls (snd (submit_image_command w body_json iid tok key s)) = calls s @ tr \<and>
         precedes is_write is_read tr \<and> (\<forall>c \<in> set tr. \<not> is_notification c))"
  using buy_command_order[of w body_json iid tok s]
        submit_image_order[of w body_json iid tok key s]
  by blast

theorem adapter_call_order_witness:
  "precedes is_read is_write
     [GetItem (JStr ''42''), UpdateItem (JStr ''42'') (- 10),
      Requests (CreateDM (JStr ''42'')),
      Requests (SendDM (JStr ''777'') (JStr ''item1'') 10),
      Requests (Callback (JStr ''9'') (JStr ''tok'')
        (ChannelMessage (bought_message (JStr ''42'') (JStr ''item1'') 10)))] \<and>
   precedes is_write is_notification
     [GetItem (JStr ''42''), UpdateItem (JStr ''42'') (- 10),
      Requests (CreateDM (JStr ''42'')),
      Requests (SendDM (JStr ''777'') (JStr ''item1'') 10),
      Requests (Callback (JStr ''9'') (JStr ''tok'')
        (ChannelMessage (bought_message (JStr ''42'') (JStr ''item1'') 10)))]"
proof -
  have c0: "calls (test_state 15) = []"
    by (simp add: test_state_def)
  from adapter_call_order[of test_world buy_json "JStr ''9''" "JStr ''tok''" "test_state 15",
         THEN conjunct1]
  show ?thesis
    unfolding test_buy_calls c0 by auto
qed

text \<open>
  Where C8 fails as stated: in a \<^verbatim>\<open>submit_image\<close> request that succeeds, the balance
  write is the third call and the only balance read is the fourth.
\<close>

theorem submit_image_writes_before_reading:
  "calls (snd (submit_image_command test_world submit_json (JStr ''9'') (JStr ''tok'')
                 (Some ''sk-test'') (test_state 15))) =
     [Requests (ImageGet (JStr ''https://example.org/a.png'')),
      Requests (ChatCompletion (Some ''sk-test'') (encode_image [137, 80, 78, 71])),
      UpdateItem (JStr ''42'') 5,
      GetItem (JStr ''42''),
      Requests (Callback (JStr ''9'') (JStr ''tok'')
        (ChannelMessage (earned_message (JStr ''42'') (JStr glass_metal_text) 5 20)))] \<and>
   \<not> precedes is_read is_write
     [Requests (ImageGet (JStr ''https://example.org/a.png'')),
      Requests (ChatCompletion (Some ''sk-test'') (encode_image [137, 80, 78, 71])),
      UpdateItem (JStr ''42'') 5,
      GetItem (JStr ''42''),
      Requests (Callback (JStr ''9'') (JStr ''tok'')
        (ChannelMessage (earned_message (JStr ''42'') (JStr glass_metal_text) 5 20)))]"
proof -
  let ?tr = "[Requests (ImageGet (JStr ''https://example.org/a.png'')),
      Requests (ChatCompletion (Some ''sk-test'') (encode_image [137, 80, 78, 71])),
      UpdateItem (JStr ''42'') 5,
      GetItem (JStr ''42''),
      Requests (Callback (JStr ''9'') (JStr ''tok'')
        (ChannelMessage (earned_message (JStr ''42'') (JStr glass_metal_text) 5 20)))]"
  have "\<not> precedes is_read is_write ?tr"
  proof
    assume "precedes is_read is_write ?tr"
    then have "\<exists>i<2. is_read (?tr ! i)"
      by (rule precedes_later) simp_all
    then obtain i where "i < 2" and "is_read (?tr ! i)" by blast
    then show False
      by (cases i) (simp_all add: less_Suc_eq)
  qed
  then show ?thesis
    using test_submit_calls by simp
qed

section \<open>The responses of the commands\<close>

lemma yields_ret: "P r \<Longrightarrow> yields P (ret r)"
  by (simp add: yields_def)

lemma yields_raise: "yields P (raise e)"
  by (simp add: yields_def)

lemma yields_bnd:
  assumes "\<And>x. yields P (f x)"
  shows "yields P (bnd m f)"
  using assms by (auto simp: yields_def bnd_run split: prod.splits sum.splits)

lemma yields_catch:
  assumes "yields P m" and "\<And>e. yields P (h e)"
  shows "yields P (catch m h)"
  unfolding yields_def
proof (intro allI impI)
  fix s r
  assume a: "fst (catch m h s) = Inr r"
  obtain res s' where ms: "m s = (res, s')" by (cases "m s") auto
  show "P r"
  proof (cases res)
    case (Inl e)
    then have "fst (h e s') = Inr r" using a ms by (simp add: catch_run)
    then show ?thesis using assms(2) by (auto simp: yields_def)
  next
    case (Inr x)
    then have "fst (m s) = Inr r" using a ms by (simp add: catch_run)
    then show ?thesis using assms(1) by (auto simp: yields_def)
  qed
qed

lemma yields_if:
  assumes "c \<Longrightarrow> yields P a" and "\<not> c \<Longrightarrow> yields P b"
  shows "yields P (if c then a else b)"
  using assms by simp

lemma command_response_error:
  assumes "(st, m) \<in> set command_envelopes"
  shows "command_response (error_response st m)"
  using assms by (force simp: command_response_def)

lemma command_envelope_members:
  "(400, ''Unknown command'') \<in> set command_envelopes"
  "(400, ''Invalid request payload'') \<in> set command_envelopes"
  "(500, ''Internal server error'') \<in> set command_envelopes"
  "(400, ''Invalid user information'') \<in> set command_envelopes"
  "(400, ''Invalid item'') \<in> set command_envelopes"
  "(500, ''Failed to send interaction response'') \<in> set command_envelopes"
  "(500, ''Failed to analyze the image'') \<in> set command_envelopes"
  "(500, ''Failed to process the image'') \<in> set command_envelopes"
  by (simp_all add: command_envelopes_def)

lemmas command_errors = command_envelope_members[THEN command_response_error]

lemma yields_send:
  "yields command_response (send_interaction_response w i t d)"
  unfolding yields_def
proof (intro allI impI)
  fix s r
  assume a: "fst (send_interaction_response w i t d s) = Inr r"
  show "command_response r"
  proof (cases "requests_send w (Callback i t d)")
    case (Inl e)
    then have "r = error_response 500 ''Failed to send interaction response''"
      using a
      by (simp add: send_interaction_response_def requests_call_def catch_run bnd_run
               split: if_splits)
    then show ?thesis by (simp add: command_errors)
  next
    case (Inr rsp)
    show ?thesis
    proof (cases "400 \<le> status_code rsp \<and> status_code rsp < 600")
      case True
      then have "r = error_response 500 ''Failed to send interaction response''"
        using a Inr
        by (simp add: send_interaction_response_def requests_call_def catch_run bnd_run
                      raise_for_status_def isinstance_def)
      then show ?thesis by (simp add: command_errors)
    next
      case False
      then have "r = \<lparr>statusCode = status_code rsp, headers = std_headers,
                        body = Text (resp_text rsp)\<rparr>"
        using a Inr
        by (auto simp: send_interaction_response_def requests_call_def catch_run bnd_run
                       raise_for_status_def)
      then show ?thesis
        using False by (auto simp: command_response_def is_passthrough_def)
    qed
  qed
qed

lemma yields_balance: "yields command_response (balance_command w b i t)"
  unfolding balance_command_def
  by (intro yields_catch yields_bnd yields_if yields_ret yields_raise yields_send)
     (rule command_errors)

lemma yields_shop: "yields command_response (shop_command w b i t)"
  unfolding shop_command_def
  by (intro yields_catch yields_bnd yields_if yields_ret yields_raise yields_send)
     (rule command_errors)

lemma yields_buy: "yields command_response (buy_command w b i t)"
  unfolding buy_command_def
  by (intro yields_catch yields_bnd yields_if yields_ret yields_raise yields_send)
     (rule command_errors)

lemma yields_submit_attempt: "yields command_response (submit_image_attempt w b i t k)"
  unfolding submit_image_attempt_def
  by (intro yields_bnd yields_send)

lemma yields_submit: "yields command_response (submit_image_command w b i t k)"
  unfolding submit_image_command_def
proof (rule yields_catch[OF yields_submit_attempt])
  fix e
  show "yields command_response
          (if isinstance e HTTPError
           then case exn_response e of
                  None \<Rightarrow> raise (Exn AttributeError ''NoneType object has no attribute text'' None)
                | Some r \<Rightarrow> ret (error_response 500 ''Failed to analyze the image'')
           else if isinstance e RequestException
                then ret (error_response 500 ''Failed to analyze the image'')
                else if isinstance e KeyError
                     then ret (error_response 500 ''Failed to process the image'')
                     else ret (error_response 500 ''Failed to analyze the image''))"
    by (cases "exn_response e")
       (auto intro!: yields_ret yields_raise command_errors)
qed

lemma yields_handle: "yields command_response (handle_command w b i t)"
  unfolding handle_command_def
  by (intro yields_catch yields_bnd yields_if yields_ret yields_raise
            yields_balance yields_shop yields_buy yields_submit)
     (rule command_errors)+

lemma handle_command_total: "\<exists>r. fst (handle_command w b i t s) = Inr r"
  by (auto simp: handle_command_def catch_run split: prod.splits sum.splits)

lemma handle_command_response:
  "\<exists>r. fst (handle_command w b i t s) = Inr r \<and> command_response r"
  using handle_command_total[of w b i t s] yields_handle[of w b i t]
  by (auto simp: yields_def)

section \<open>The top-level handler\<close>

lemma command_response_fixed:
  assumes "command_response r"
  shows "is_passthrough r \<or> fixed_error r"
  using assms by (auto simp: command_response_def fixed_error_def error_envelopes_def)

lemma fixed_error_top:
  "fixed_error (error_response 400 ''Missing signature or timestamp'')"
  "fixed_error (error_response 400 ''Invalid JSON'')"
  "fixed_error (error_response 401 ''Invalid request signature'')"
  "fixed_error (error_response 500 ''Internal server error'')"
  by (simp_all add: fixed_error_def error_envelopes_def command_envelopes_def)

lemma lambda_attempt_response:
  assumes "fst (lambda_attempt w ev s) = Inr r"
  shows "is_ack r \<or> r = error_response 400 ''Invalid JSON'' \<or>
         r = error_response 401 ''Invalid request signature'' \<or> command_response r"
proof -
  let ?sg = "ev_headers ev ''x-signature-ed25519''"
  let ?ts = "ev_headers ev ''x-signature-timestamp''"
  have hd: "\<not> (falsy ?sg \<or> falsy ?ts)"
    using assms by (auto simp: lambda_attempt_def Let_def)
  obtain b where b: "decode_body w ev = Inr b"
    using assms hd by (cases "decode_body w ev") (auto simp: lambda_attempt_def Let_def)
  show ?thesis
  proof (cases "py_json_loads w b")
    case (Inl e)
    then show ?thesis
      using assms hd b by (auto simp: lambda_attempt_def Let_def split: if_splits)
  next
    case j: (Inr body_json)
    obtain k where k: "make_verify_key w = Inr k"
      using assms hd b j by (cases "make_verify_key w") (auto simp: lambda_attempt_def Let_def)
    show ?thesis
    proof (cases "verify_signature w k (the ?ts) b (the ?sg)")
      case (Inl e)
      then show ?thesis
        using assms hd b j k by (auto simp: lambda_attempt_def Let_def split: if_splits)
    next
      case v: (Inr u)
      obtain t where t: "py_get body_json ''type'' JNull = Inr t"
        using assms hd b j k v
        by (cases "py_get body_json ''type'' JNull") (auto simp: lambda_attempt_def Let_def)
      show ?thesis
      proof (cases "py_eq_one t")
        case True
        then show ?thesis
          using assms hd b j k v t by (auto simp: lambda_attempt_def Let_def is_ack_def)
      next
        case False
        obtain iid where iid: "py_get body_json ''id'' JNull = Inr iid"
          using assms hd b j k v t False
          by (cases "py_get body_json ''id'' JNull") (auto simp: lambda_attempt_def Let_def)
        obtain tok where tok: "py_get body_json ''token'' JNull = Inr tok"
          using assms hd b j k v t False iid
          by (cases "py_get body_json ''token'' JNull") (auto simp: lambda_attempt_def Let_def)
        have "fst (handle_command w body_json iid tok s) = Inr r"
          using assms hd b j k v t False iid tok by (auto simp: lambda_attempt_def Let_def)
        then have "command_response r"
          using yields_handle[of w body_json iid tok] by (auto simp: yields_def)
        then show ?thesis by simp
      qed
    qed
  qed
qed

lemma lambda_handler_cases:
  "\<exists>r. fst (lambda_handler w ev s) = Inr r \<and>
       (is_ack r \<or> is_passthrough r \<or> fixed_error r \<or>
        (\<exists>e. fst (lambda_attempt w ev s) = Inl e \<and> isinstance e ValueError \<and>
             r = error_response 400 (msg e)))"
proof -
  obtain res s' where run: "lambda_attempt w ev s = (res, s')"
    by (cases "lambda_attempt w ev s") auto
  show ?thesis
  proof (cases res)
    case (Inl e)
    show ?thesis
    proof (cases "isinstance e ValueError")
      case True
      then have "fst (lambda_handler w ev s) = Inr (error_response 400 (msg e))"
        using run Inl by (simp add: lambda_handler_def catch_run)
      then show ?thesis using run Inl True by auto
    next
      case False
      then have "fst (lambda_handler w ev s) = Inr (error_response 500 ''Internal server error'')"
        using run Inl by (simp add: lambda_handler_def catch_run)
      then show ?thesis using fixed_error_top(4) by auto
    qed
  next
    case (Inr r)
    then have h: "fst (lambda_handler w ev s) = Inr r"
      using run by (simp add: lambda_handler_def catch_run)
    have "fst (lambda_attempt w ev s) = Inr r" using run Inr by simp
    from lambda_attempt_response[OF this]
    have "is_ack r \<or> is_passthrough r \<or> fixed_error r"
      using fixed_error_top command_response_fixed[of r] by auto
    then show ?thesis using h by auto
  qed
qed

lemma lambda_attempt_missing:
  assumes "falsy (ev_headers ev ''x-signature-ed25519'') \<or> falsy (ev_headers ev ''x-signature-timestamp'')"
  shows "lambda_attempt w ev s = (Inl (Exn ValueError ''Missing signature or timestamp'' None), s)"
  using assms by (auto simp: lambda_attempt_def Let_def)

lemma lambda_handler_missing:
  assumes "falsy (ev_headers ev ''x-signature-ed25519'') \<or> falsy (ev_headers ev ''x-signature-timestamp'')"
  shows "lambda_handler w ev s = (Inr (error_response 400 ''Missing signature or timestamp''), s)"
  by (simp add: lambda_handler_def catch_run lambda_attempt_missing[OF assms] isinstance_def)

text \<open>The request up to the verification of its signature.\<close>

lemma lambda_attempt_bad_json:
  assumes "ev_headers ev ''x-signature-ed25519'' = Some sg" and "sg \<noteq> []"
    and "ev_headers ev ''x-signature-timestamp'' = Some ts" and "ts \<noteq> []"
    and "decode_body w ev = Inr b"
    and "json_loads w b = None"
  shows "lambda_attempt w ev s = (Inr (error_response 400 ''Invalid JSON''), s)"
  using assms
  by (simp add: lambda_attempt_def Let_def falsy_def py_json_loads_def isinstance_def)

lemma lambda_attempt_verify_raises:
  assumes "ev_headers ev ''x-signature-ed25519'' = Some sg" and "sg \<noteq> []"
    and "ev_headers ev ''x-signature-timestamp'' = Some ts" and "ts \<noteq> []"
    and "decode_body w ev = Inr b"
    and "json_loads w b = Some j"
    and "make_verify_key w = Inr k"
    and "verify_signature w k ts b sg = Inl e"
  shows "lambda_attempt w ev s =
           (if isinstance e BadSignatureError
            then (Inr (error_response 401 ''Invalid request signature''), s)
            else (Inl e, s))"
  using assms
  by (simp add: lambda_attempt_def Let_def falsy_def py_json_loads_def)

lemma lambda_attempt_verified:
  assumes "ev_headers ev ''x-signature-ed25519'' = Some sg" and "sg \<noteq> []"
    and "ev_headers ev ''x-signature-timestamp'' = Some ts" and "ts \<noteq> []"
    and "decode_body w ev = Inr b"
    and "json_loads w b = Some j"
    and "make_verify_key w = Inr k"
    and "verify_signature w k ts b sg = Inr ()"
    and "py_get j ''type'' JNull = Inr t" and "\<not> py_eq_one t"
    and "py_get j ''id'' JNull = Inr iid"
    and "py_get j ''token'' JNull = Inr tok"
  shows "lambda_attempt w ev s = handle_command w j iid tok s"
  using assms
  by (simp add: lambda_attempt_def Let_def falsy_def py_json_loads_def)

lemma lambda_handler_of_attempt:
  assumes "lambda_attempt w ev s = (Inr r, s')"
  shows "lambda_handler w ev s = (Inr r, s')"
  using assms by (simp add: lambda_handler_def catch_run)

lemma lambda_handler_of_raise:
  assumes "lambda_attempt w ev s = (Inl e, s')"
  shows "lambda_handler w ev s =
           (Inr (if isinstance e ValueError then error_response 400 (msg e)
                 else error_response 500 ''Internal server error''), s')"
  using assms by (simp add: lambda_handler_def catch_run)

section \<open>Requests on the test world\<close>

lemma test_event_fields:
  "ev_headers (test_event sg b) ''x-signature-ed25519'' = Some sg"
  "ev_headers (test_event sg b) ''x-signature-timestamp'' = Some ''1700000000''"
  "decode_body w (test_event sg b) = Inr b"
  by (simp_all add: test_event_def decode_body_def)

lemma test_make_verify_key: "make_verify_key test_world = Inr test_key"
  by (simp add: make_verify_key_def test_world_def key_hex_def bytes_fromhex_def sbind_def
                hex_val_def is_space_def test_key_def)

lemma test_verify_good: "verify_signature test_world k ts b good_signature = Inr ()"
  by (simp add: verify_signature_def test_world_def good_signature_def bytes_fromhex_def
                sbind_def hex_val_def is_space_def)

lemma test_verify_wrong:
  "verify_signature test_world k ts b wrong_signature =
     Inl (Exn BadSignatureError ''Signature was forged or corrupt'' None)"
  by (simp add: verify_signature_def test_world_def wrong_signature_def bytes_fromhex_def
                sbind_def hex_val_def is_space_def)

lemma test_loads_bodies:
  "test_loads bad_body = None"
  "test_loads ping_body = Some (JObj [(''type'', JInt 1)])"
  "test_loads balance_body = Some balance_json"
  "test_loads buy_body = Some buy_json"
  by (simp_all add: test_loads_def bad_body_def ping_body_def balance_body_def buy_body_def
                    submit_body_def channel_text_def no_channel_text_def chat_text_def)

lemma signatures_nonempty:
  "good_signature \<noteq> []" "wrong_signature \<noteq> []"
  by (simp_all add: good_signature_def wrong_signature_def)

section \<open>Parsing and verification\<close>

lemma not_command_401: "\<not> command_response (error_response 401 m)"
  by (auto simp: command_response_def is_passthrough_def error_response_def
                 command_envelopes_def)

lemma unauthorized_only_after_parse:
  assumes sg: "ev_headers ev ''x-signature-ed25519'' = Some sg"
    and ts: "ev_headers ev ''x-signature-timestamp'' = Some ts"
    and b: "decode_body w ev = Inr b"
    and r: "fst (lambda_handler w ev s) = Inr (error_response 401 ''Invalid request signature'')"
  shows "\<exists>j k e. json_loads w b = Some j \<and> make_verify_key w = Inr k \<and>
                 verify_signature w k ts b sg = Inl e \<and> isinstance e BadSignatureError"
proof -
  let ?r = "error_response 401 ''Invalid request signature''"
  obtain res s' where run: "lambda_attempt w ev s = (res, s')"
    by (cases "lambda_attempt w ev s") auto
  have a: "fst (lambda_attempt w ev s) = Inr ?r"
  proof (cases res)
    case (Inl e)
    then show ?thesis
      using r lambda_handler_of_raise[OF run[unfolded Inl]]
      by (simp add: error_response_def split: if_splits)
  next
    case (Inr x)
    then show ?thesis
      using r lambda_handler_of_attempt[OF run[unfolded Inr]] run by simp
  qed
  have hd: "\<not> (falsy (Some sg) \<or> falsy (Some ts))"
    using a sg ts by (auto simp: lambda_attempt_def Let_def)
  show ?thesis
  proof (cases "json_loads w b")
    case None
    then show ?thesis
      using a sg ts b hd
      by (simp add: lambda_attempt_def Let_def py_json_loads_def isinstance_def error_response_def)
  next
    case j: (Some j)
    obtain k where k: "make_verify_key w = Inr k"
      using a sg ts b hd j
      by (cases "make_verify_key w") (auto simp: lambda_attempt_def Let_def py_json_loads_def)
    show ?thesis
    proof (cases "verify_signature w k ts b sg")
      case (Inl e)
      then have "isinstance e BadSignatureError"
        using a sg ts b hd j k
        by (auto simp: lambda_attempt_def Let_def py_json_loads_def split: if_splits)
      then show ?thesis using j k Inl by blast
    next
      case v: (Inr u)
      obtain t where t: "py_get j ''type'' JNull = Inr t"
        using a sg ts b hd j k v
        by (cases "py_get j ''type'' JNull") (auto simp: lambda_attempt_def Let_def py_json_loads_def)
      have ne: "\<not> py_eq_one t"
        using a sg ts b hd j k v t
        by (auto simp: lambda_attempt_def Let_def py_json_loads_def error_response_def
                       successful_response_def)
      obtain iid where iid: "py_get j ''id'' JNull = Inr iid"
        using a sg ts b hd j k v t ne
        by (cases "py_get j ''id'' JNull") (auto simp: lambda_attempt_def Let_def py_json_loads_def)
      obtain tok where tok: "py_get j ''token'' JNull = Inr tok"
        using a sg ts b hd j k v t ne iid
        by (cases "py_get j ''token'' JNull") (auto simp: lambda_attempt_def Let_def py_json_loads_def)
      have "fst (handle_command w j iid tok s) = Inr ?r"
        using a sg ts b hd j k v t ne iid tok
        by (auto simp: lambda_attempt_def Let_def py_json_loads_def)
      then have "command_response ?r"
        using yields_handle[of w j iid tok] by (auto simp: yields_def)
      then show ?thesis using not_command_401 by blast
    qed
  qed
qed

lemma lambda_handler_bad_json:
  assumes "ev_headers ev ''x-signature-ed25519'' = Some sg" and "sg \<noteq> []"
    and "ev_headers ev ''x-signature-timestamp'' = Some ts" and "ts \<noteq> []"
    and "decode_body w ev = Inr b"
    and "json_loads w b = None"
  shows "lambda_handler w ev s = (Inr (error_response 400 ''Invalid JSON''), s)"
  by (rule lambda_handler_of_attempt) (rule lambda_attempt_bad_json[OF assms])

lemma lambda_handler_verify_raises:
  assumes "ev_headers ev ''x-signature-ed25519'' = Some sg" and "sg \<noteq> []"
    and "ev_headers ev ''x-signature-timestamp'' = Some ts" and "ts \<noteq> []"
    and "decode_body w ev = Inr b"
    and "json_loads w b = Some j"
    and "make_verify_key w = Inr k"
    and "verify_signature w k ts b sg = Inl e"
  shows "lambda_handler w ev s =
           (Inr (if isinstance e BadSignatureError
                 then error_response 401 ''Invalid request signature''
                 else if isinstance e ValueError then error_response 400 (msg e)
                 else error_response 500 ''Internal server error''), s)"
  using lambda_attempt_verify_raises[OF assms, of s]
  by (simp add: lambda_handler_def catch_run)

text \<open>
  C1, as the code has it. For every request that carries both headers and whose body
  decodes, the body is parsed as JSON before the signature is verified: a body that is
  not JSON yields 400 ``Invalid JSON'' whatever the signature, with no call made; a body
  that parses, with a key that loads and a verification that raises
  \<^verbatim>\<open>BadSignatureError\<close>, yields 401 ``Invalid request signature''; and the 401 response
  is produced only in that case, hence only for requests whose body was already parsed.
\<close>

theorem json_parsed_before_signature:
  "ev_headers ev ''x-signature-ed25519'' = Some sg \<and> sg \<noteq> [] \<and>
   ev_headers ev ''x-signature-timestamp'' = Some ts \<and> ts \<noteq> [] \<and>
   decode_body w ev = Inr b \<longrightarrow>
     (json_loads w b = None \<longrightarrow>
        lambda_handler w ev s = (Inr (error_response 400 ''Invalid JSON''), s)) \<and>
     (\<forall>j k e. json_loads w b = Some j \<and> make_verify_key w = Inr k \<and>
              verify_signature w k ts b sg = Inl e \<and> isinstance e BadSignatureError \<longrightarrow>
        lambda_handler w ev s = (Inr (error_response 401 ''Invalid request signature''), s)) \<and>
     (fst (lambda_handler w ev s) = Inr (error_response 401 ''Invalid request signature'') \<longrightarrow>
        (\<exists>j k e. json_loads w b = Some j \<and> make_verify_key w = Inr k \<and>
                 verify_signature w k ts b sg = Inl e \<and> isinstance e BadSignatureError))"
proof (intro impI conjI allI; elim conjE)
  assume h: "ev_headers ev ''x-signature-ed25519'' = Some sg" "sg \<noteq> []"
            "ev_headers ev ''x-signature-timestamp'' = Some ts" "ts \<noteq> []"
            "decode_body w ev = Inr b"
  {
    assume "json_loads w b = None"
    with h show "lambda_handler w ev s = (Inr (error_response 400 ''Invalid JSON''), s)"
      by (rule lambda_handler_bad_json)
  }
  {
    fix j k e
    assume "json_loads w b = Some j" "make_verify_key w = Inr k"
           "verify_signature w k ts b sg = Inl e" "isinstance e BadSignatureError"
    then show "lambda_handler w ev s = (Inr (error_response 401 ''Invalid request signature''), s)"
      using lambda_handler_verify_raises[OF h, of j k e s] by simp
  }
  {
    assume "fst (lambda_handler w ev s) = Inr (error_response 401 ''Invalid request signature'')"
    then show "\<exists>j k e. json_loads w b = Some j \<and> make_verify_key w = Inr k \<and>
                 verify_signature w k ts b sg = Inl e \<and> isinstance e BadSignatureError"
      using unauthorized_only_after_parse[OF h(1) h(3) h(5)] by blast
  }
qed

theorem json_parsed_before_signature_witness:
  "lambda_handler test_world (test_event good_signature bad_body) (test_state 0) =
     (Inr (error_response 400 ''Invalid JSON''), test_state 0) \<and>
   lambda_handler test_world (test_event wrong_signature buy_body) (test_state 0) =
     (Inr (error_response 401 ''Invalid request signature''), test_state 0)"
proof -
  have w: "json_loads test_world = test_loads"
    by (simp add: test_world_def)
  have i: "isinstance (Exn BadSignatureError ''Signature was forged or corrupt'' None) BadSignatureError"
    by (simp add: isinstance_def)
  have t: "''1700000000'' \<noteq> []" by simp
  from json_parsed_before_signature[of "test_event good_signature bad_body" good_signature
         "''1700000000''" test_world bad_body "test_state 0"]
  have a: "lambda_handler test_world (test_event good_signature bad_body) (test_state 0) =
             (Inr (error_response 400 ''Invalid JSON''), test_state 0)"
    using test_event_fields signatures_nonempty test_loads_bodies(1) w by simp
  from json_parsed_before_signature[of "test_event wrong_signature buy_body" wrong_signature
         "''1700000000''" test_world buy_body "test_state 0"]
  have b: "lambda_handler test_world (test_event wrong_signature buy_body) (test_state 0) =
             (Inr (error_response 401 ''Invalid request signature''), test_state 0)"
    using test_event_fields signatures_nonempty test_loads_bodies(4) w test_make_verify_key
          test_verify_wrong i
    by simp
  show ?thesis using a b by simp
qed

text \<open>
  Where C1 fails as stated: a request whose body is not JSON and whose signature the
  verification would reject is answered with 400 ``Invalid JSON'', not with 401.
\<close>

theorem invalid_json_wins_over_bad_signature:
  "json_loads test_world bad_body = None \<and>
   verify_signature test_world test_key ''1700000000'' bad_body wrong_signature =
     Inl (Exn BadSignatureError ''Signature was forged or corrupt'' None) \<and>
   lambda_handler test_world (test_event wrong_signature bad_body) (test_state 15) =
     (Inr (error_response 400 ''Invalid JSON''), test_state 15) \<and>
   statusCode (error_response 400 ''Invalid JSON'') \<noteq> 401"
proof -
  have w: "json_loads test_world bad_body = None"
    by (simp add: test_world_def test_loads_bodies)
  have t: "''1700000000'' \<noteq> []" by simp
  show ?thesis
    using lambda_handler_bad_json[OF test_event_fields(1) signatures_nonempty(2)
            test_event_fields(2) t test_event_fields(3) w, of "test_state 15"]
          w test_verify_wrong
    by (simp add: error_response_def)
qed

section \<open>Exceptions of the verification\<close>

lemma cls_fromhex_error [simp]: "cls (fromhex_error n) = ValueError"
  by (simp add: fromhex_error_def)

lemma fromhex_at_error:
  "fromhex_at pos str = Inl e \<Longrightarrow> cls e = ValueError"
proof (induction pos str arbitrary: e rule: fromhex_at.induct)
  case (1 pos)
  then show ?case by simp
next
  case (2 pos c)
  then show ?case
    by (cases "is_space c"; cases "hex_val c") auto
next
  case (3 pos c d ds)
  show ?case
  proof (cases "is_space c")
    case True
    then show ?thesis using 3 by simp
  next
    case False
    show ?thesis
    proof (cases "hex_val c")
      case None
      then show ?thesis using 3(3) False by auto
    next
      case hi: (Some hi)
      show ?thesis
      proof (cases "hex_val d")
        case None
        then show ?thesis using 3(3) False hi by auto
      next
        case lo: (Some lo)
        show ?thesis
        proof (cases "fromhex_at (pos + 2) ds")
          case (Inl e')
          then have "e = e'" using 3(3) False hi lo by simp
          then show ?thesis using 3(2)[OF False hi lo Inl] by simp
        next
          case (Inr bs)
          then show ?thesis using 3(3) False hi lo by simp
        qed
      qed
    qed
  qed
qed

lemma fromhex_fails_verification:
  assumes "bytes_fromhex sg = Inl e"
  shows "verify_signature w k ts b sg = Inl e"
    and "isinstance e ValueError" and "\<not> isinstance e BadSignatureError"
  using assms fromhex_at_error[of 0 sg e]
  by (simp_all add: verify_signature_def sbind_def bytes_fromhex_def isinstance_def)

text \<open>
  C2, as the code has it. For every request that carries both headers and reaches the
  verification (the body decodes and parses, the key loads), no exception of the
  verification is propagated: \<^verbatim>\<open>BadSignatureError\<close> yields 401 ``Invalid request
  signature''; a \<^verbatim>\<open>ValueError\<close> is caught by the top-level clause and yields 400 with
  the text of the exception; any other exception yields 500 ``Internal server error''.
  A signature that \<^verbatim>\<open>bytes.fromhex\<close> rejects raises a \<^verbatim>\<open>ValueError\<close> and so yields
  400.
\<close>

theorem verification_exceptions_mapped:
  "ev_headers ev ''x-signature-ed25519'' = Some sg \<and> sg \<noteq> [] \<and>
   ev_headers ev ''x-signature-timestamp'' = Some ts \<and> ts \<noteq> [] \<and>
   decode_body w ev = Inr b \<and> json_loads w b = Some j \<and> make_verify_key w = Inr k \<longrightarrow>
     (\<forall>e. verify_signature w k ts b sg = Inl e \<longrightarrow>
        lambda_handler w ev s =
          (Inr (if isinstance e BadSignatureError
                then error_response 401 ''Invalid request signature''
                else if isinstance e ValueError then error_response 400 (msg e)
                else error_response 500 ''Internal server error''), s)) \<and>
     (\<forall>e. bytes_fromhex sg = Inl e \<longrightarrow>
        lambda_handler w ev s = (Inr (error_response 400 (msg e)), s))"
proof (intro impI conjI allI; elim conjE)
  assume h: "ev_headers ev ''x-signature-ed25519'' = Some sg" "sg \<noteq> []"
            "ev_headers ev ''x-signature-timestamp'' = Some ts" "ts \<noteq> []"
            "decode_body w ev = Inr b" "json_loads w b = Some j" "make_verify_key w = Inr k"
  {
    fix e
    assume "verify_signature w k ts b sg = Inl e"
    with h show "lambda_handler w ev s =
          (Inr (if isinstance e BadSignatureError
                then error_response 401 ''Invalid request signature''
                else if isinstance e ValueError then error_response 400 (msg e)
                else error_response 500 ''Internal server error''), s)"
      by (rule lambda_handler_verify_raises)
  }
  {
    fix e
    assume f: "bytes_fromhex sg = Inl e"
    show "lambda_handler w ev s = (Inr (error_response 400 (msg e)), s)"
      using lambda_handler_verify_raises[OF h fromhex_fails_verification(1)[OF f], of s]
            fromhex_fails_verification(2,3)[OF f]
      by simp
  }
qed

lemma fromhex_xyz: "bytes_fromhex ''xyz'' = Inl (fromhex_error 0)"
  by (simp add: bytes_fromhex_def hex_val_def is_space_def)

lemma fromhex_error_text:
  "fromhex_error 0 = Exn ValueError ''non-hexadecimal number found in fromhex() arg at position 0'' None"
  "fromhex_error 1 = Exn ValueError ''non-hexadecimal number found in fromhex() arg at position 1'' None"
  by (simp_all add: fromhex_error_def digit_char_def)

theorem verification_exceptions_mapped_witness:
  "lambda_handler test_world (test_event wrong_signature balance_body) (test_state 0) =
     (Inr (error_response 401 ''Invalid request signature''), test_state 0) \<and>
   lambda_handler test_world (test_event ''xyz'' balance_body) (test_state 0) =
     (Inr (error_response 400 ''non-hexadecimal number found in fromhex() arg at position 0''),
      test_state 0)"
proof -
  have w: "json_loads test_world balance_body = Some balance_json"
    by (simp add: test_world_def test_loads_bodies)
  have i: "isinstance (Exn BadSignatureError ''Signature was forged or corrupt'' None) BadSignatureError"
    by (simp add: isinstance_def)
  have x: "''xyz'' \<noteq> []" by simp
  from verification_exceptions_mapped[of "test_event wrong_signature balance_body" wrong_signature
         "''1700000000''" test_world balance_body balance_json test_key "test_state 0"]
  have a: "lambda_handler test_world (test_event wrong_signature balance_body) (test_state 0) =
             (Inr (error_response 401 ''Invalid request signature''), test_state 0)"
    using test_event_fields signatures_nonempty w test_make_verify_key test_verify_wrong i
    by simp
  from verification_exceptions_mapped[of "test_event ''xyz'' balance_body" "''xyz''"
         "''1700000000''" test_world balance_body balance_json test_key "test_state 0"]
  have b: "lambda_handler test_world (test_event ''xyz'' balance_body) (test_state 0) =
             (Inr (error_response 400 (msg (fromhex_error 0))), test_state 0)"
    using test_event_fields x w test_make_verify_key fromhex_xyz
    by simp
  show ?thesis using a b by (simp add: fromhex_error_text)
qed

text \<open>
  Where C2 fails as stated: a signature that is not hexadecimal is answered with 400 and
  the text of the \<^verbatim>\<open>ValueError\<close>, not with 401.
\<close>

theorem non_hex_signature_is_400:
  "lambda_handler test_world (test_event ''not-hex'' buy_body) (test_state 15) =
     (Inr (error_response 400 ''non-hexadecimal number found in fromhex() arg at position 0''),
      test_state 15) \<and>
   statusCode (error_response 400 ''non-hexadecimal number found in fromhex() arg at position 0'')
     \<noteq> 401"
proof -
  have w: "json_loads test_world buy_body = Some buy_json"
    by (simp add: test_world_def test_loads_bodies)
  have x: "''not-hex'' \<noteq> []" "''1700000000'' \<noteq> []" by simp_all
  have f: "bytes_fromhex ''not-hex'' = Inl (fromhex_error 0)"
    by (simp add: bytes_fromhex_def hex_val_def is_space_def)
  show ?thesis
    using lambda_handler_verify_raises[OF test_event_fields(1) x(1) test_event_fields(2) x(2)
            test_event_fields(3) w test_make_verify_key fromhex_fails_verification(1)[OF f],
            of "test_state 15"]
          fromhex_fails_verification(2,3)[OF f]
    by (simp add: fromhex_error_text error_response_def)
qed

section \<open>The messages of the error responses\<close>

text \<open>
  C9, as the code has it. For every request the handler's response is the liveness
  acknowledgement, the platform's answer to the callback handed on, an error envelope
  whose status and message are one of eleven constant pairs, or, only when the outer
  \<^verbatim>\<open>try\<close> block raised a \<^verbatim>\<open>ValueError\<close>, the 400 envelope that carries the text of
  that exception. The handler's own \<^verbatim>\<open>ValueError\<close> for a missing header carries the
  constant ``Missing signature or timestamp''.
\<close>

theorem error_messages_are_constants:
  "(\<exists>r. fst (lambda_handler w ev s) = Inr r \<and>
        (is_ack r \<or> is_passthrough r \<or> fixed_error r \<or>
         (\<exists>e. fst (lambda_attempt w ev s) = Inl e \<and> isinstance e ValueError \<and>
              r = error_response 400 (msg e)))) \<and>
   (falsy (ev_headers ev ''x-signature-ed25519'') \<or> falsy (ev_headers ev ''x-signature-timestamp'') \<longrightarrow>
      fst (lambda_handler w ev s) = Inr (error_response 400 ''Missing signature or timestamp''))"
  using lambda_handler_cases[of w ev s] lambda_handler_missing[of ev w s]
  by auto

theorem error_messages_are_constants_witness:
  "falsy (ev_headers (test_event [] ping_body) ''x-signature-ed25519'') \<and>
   fst (lambda_handler test_world (test_event [] ping_body) (test_state 0)) =
     Inr (error_response 400 ''Missing signature or timestamp'') \<and>
   fixed_error (error_response 400 ''Missing signature or timestamp'')"
proof -
  have f: "falsy (ev_headers (test_event [] ping_body) ''x-signature-ed25519'')"
    by (simp add: falsy_def test_event_def)
  from error_messages_are_constants[of test_world "test_event [] ping_body" "test_state 0",
         THEN conjunct2]
  show ?thesis
    using f fixed_error_top(1) by simp
qed

text \<open>
  Where C9 fails as stated: two requests that differ only in where their signature
  stops being hexadecimal fail at the same statement and are caught by the same clause,
  and the two user-visible messages differ, each being the text of its exception.
\<close>

theorem error_message_shows_exception_text:
  "fst (lambda_attempt test_world (test_event ''zz'' buy_body) (test_state 15)) =
     Inl (Exn ValueError ''non-hexadecimal number found in fromhex() arg at position 0'' None) \<and>
   fst (lambda_attempt test_world (test_event ''0g'' buy_body) (test_state 15)) =
     Inl (Exn ValueError ''non-hexadecimal number found in fromhex() arg at position 1'' None) \<and>
   fst (lambda_handler test_world (test_event ''zz'' buy_body) (test_state 15)) =
     Inr (error_response 400 ''non-hexadecimal number found in fromhex() arg at position 0'') \<and>
   fst (lambda_handler test_world (test_event ''0g'' buy_body) (test_state 15)) =
     Inr (error_response 400 ''non-hexadecimal number found in fromhex() arg at position 1'') \<and>
   error_response 400 ''non-hexadecimal number found in fromhex() arg at position 0'' \<noteq>
   error_response 400 ''non-hexadecimal number found in fromhex() arg at position 1''"
proof -
  have w: "json_loads test_world buy_body = Some buy_json"
    by (simp add: test_world_def test_loads_bodies)
  have x: "''zz'' \<noteq> []" "''0g'' \<noteq> []" "''1700000000'' \<noteq> []" by simp_all
  have f0: "bytes_fromhex ''zz'' = Inl (fromhex_error 0)"
    by (simp add: bytes_fromhex_def hex_val_def is_space_def)
  have f1: "bytes_fromhex ''0g'' = Inl (fromhex_error 1)"
    by (simp add: bytes_fromhex_def hex_val_def is_space_def)
  have a0: "lambda_attempt test_world (test_event ''zz'' buy_body) (test_state 15) =
              (Inl (fromhex_error 0), test_state 15)"
    using lambda_attempt_verify_raises[OF test_event_fields(1) x(1) test_event_fields(2) x(3)
            test_event_fields(3) w test_make_verify_key fromhex_fails_verification(1)[OF f0],
            of "test_state 15"]
          fromhex_fails_verification(3)[OF f0]
    by simp
  have a1: "lambda_attempt test_world (test_event ''0g'' buy_body) (test_state 15) =
              (Inl (fromhex_error 1), test_state 15)"
    using lambda_attempt_verify_raises[OF test_event_fields(1) x(2) test_event_fields(2) x(3)
            test_event_fields(3) w test_make_verify_key fromhex_fails_verification(1)[OF f1],
            of "test_state 15"]
          fromhex_fails_verification(3)[OF f1]
    by simp
  let ?e0 = "Exn ValueError ''non-hexadecimal number found in fromhex() arg at position 0'' None"
  let ?e1 = "Exn ValueError ''non-hexadecimal number found in fromhex() arg at position 1'' None"
  have b0: "lambda_attempt test_world (test_event ''zz'' buy_body) (test_state 15) =
              (Inl ?e0, test_state 15)"
    using a0 by (simp only: fromhex_error_text)
  have b1: "lambda_attempt test_world (test_event ''0g'' buy_body) (test_state 15) =
              (Inl ?e1, test_state 15)"
    using a1 by (simp only: fromhex_error_text)
  have i: "isinstance ?e0 ValueError" "isinstance ?e1 ValueError"
    by (simp_all add: isinstance_def)
  show ?thesis
    using b0 b1 lambda_handler_of_raise[OF b0] lambda_handler_of_raise[OF b1] i
    by (simp add: error_response_def)
qed

section \<open>Totality of the handler\<close>

lemma response_headers:
  assumes "is_ack r \<or> is_passthrough r \<or> fixed_error r \<or> r = error_response 400 m"
  shows "headers r = std_headers"
  using assms
  by (auto simp: is_ack_def is_passthrough_def fixed_error_def error_response_def
                 successful_response_def)

lemma response_status:
  assumes "is_ack r \<or> fixed_error r \<or> r = error_response 400 m"
  shows "statusCode r \<in> {200, 400, 401, 500}"
  using assms
  by (auto simp: is_ack_def fixed_error_def error_response_def successful_response_def
                 error_envelopes_def command_envelopes_def)

text \<open>
  C10, as the code has it. For every event and every world the handler returns a
  response with status, headers and body and raises nothing; the headers are the two
  fixed ones; the status is 200, 400, 401 or 500, or else the response hands on the
  status and text of the platform's answer to the callback, a status that is not an
  error status (the platform answers a callback with 204).
\<close>

theorem handler_always_responds:
  "\<exists>r s'. lambda_handler w ev s = (Inr r, s') \<and> headers r = std_headers \<and>
          (statusCode r \<in> {200, 400, 401, 500} \<or> is_passthrough r)"
proof -
  obtain r where r: "fst (lambda_handler w ev s) = Inr r"
    and shape: "is_ack r \<or> is_passthrough r \<or> fixed_error r \<or>
        (\<exists>e. fst (lambda_attempt w ev s) = Inl e \<and> isinstance e ValueError \<and>
             r = error_response 400 (msg e))"
    using lambda_handler_cases[of w ev s] by blast
  have "headers r = std_headers"
    using shape response_headers[of r] by blast
  moreover have "statusCode r \<in> {200, 400, 401, 500} \<or> is_passthrough r"
    using shape response_status[of r] by blast
  moreover have "lambda_handler w ev s = (Inr r, snd (lambda_handler w ev s))"
    using r by (simp add: prod_eq_iff)
  ultimately show ?thesis by blast
qed

lemma test_ping:
  "lambda_handler test_world (test_event good_signature ping_body) s =
     (Inr (successful_response (JObj [(''type'', JInt 1)])), s)"
proof -
  have w: "json_loads test_world ping_body = Some (JObj [(''type'', JInt 1)])"
    by (simp add: test_world_def test_loads_bodies)
  show ?thesis
    by (simp add: lambda_handler_def catch_run lambda_attempt_def Let_def test_event_fields
                  falsy_def signatures_nonempty py_json_loads_def w test_make_verify_key
                  test_verify_good)
qed

theorem handler_always_responds_witness:
  "lambda_handler test_world (test_event good_signature ping_body) (test_state 0) =
     (Inr (successful_response (JObj [(''type'', JInt 1)])), test_state 0) \<and>
   headers (successful_response (JObj [(''type'', JInt 1)])) = std_headers \<and>
   statusCode (successful_response (JObj [(''type'', JInt 1)])) = 200"
  using handler_always_responds[of test_world "test_event good_signature ping_body" "test_state 0"]
        test_ping[of "test_state 0"]
  by (auto simp: successful_response_def)

text \<open>
  Where C10 fails as stated: the store refuses the read, \<open>get_user_tokens\<close> swallows the
  exception and the request goes on to the reply; the platform answers the callback with
  204, and 204 is the status of the handler's response.
\<close>

theorem swallowed_exception_answered_204:
  "get_item_raises store_down_world (JStr ''42'') = Some (Exn OtherException ''ClientError'' None) \<and>
   lambda_handler store_down_world (test_event good_signature balance_body) (test_state 15) =
     (Inr \<lparr>statusCode = 204, headers = std_headers, body = Text []\<rparr>,
      log_call (Requests (Callback (JStr ''9'') (JStr ''tok'')
                  (ChannelMessage [Lit ''<@'', Val (JStr ''42''), Lit ''>, you have '', Num 0,
                                   Lit '' tokens.''])))
        (log_call (GetItem (JStr ''42'')) (test_state 15))) \<and>
   (204::int) \<notin> {200, 400, 401, 500}"
proof -
  let ?w = store_down_world
  let ?cb = "Callback (JStr ''9'') (JStr ''tok'')
               (ChannelMessage [Lit ''<@'', Val (JStr ''42''), Lit ''>, you have '', Num 0,
                                Lit '' tokens.''])"
  have g: "get_item_raises ?w (JStr ''42'') = Some (Exn OtherException ''ClientError'' None)"
    by (simp add: store_down_world_def)
  have w: "json_loads ?w balance_body = Some balance_json"
    by (simp add: store_down_world_def test_world_def test_loads_bodies)
  have k: "make_verify_key ?w = Inr test_key"
    by (simp add: make_verify_key_def store_down_world_def test_world_def key_hex_def
                  bytes_fromhex_def sbind_def hex_val_def is_space_def test_key_def)
  have v: "verify_signature ?w test_key ''1700000000'' balance_body good_signature = Inr ()"
    using test_verify_good[of test_key "''1700000000''" balance_body]
    by (simp add: verify_signature_def store_down_world_def)
  have p: "py_get balance_json ''type'' JNull = Inr (JInt 2)" "\<not> py_eq_one (JInt 2)"
          "py_get balance_json ''id'' JNull = Inr (JStr ''9'')"
          "py_get balance_json ''token'' JNull = Inr (JStr ''tok'')"
    by (simp_all add: balance_json_def)
  have x: "''1700000000'' \<noteq> []" by simp
  have cb: "requests_send ?w ?cb = Inr (ok_response 204 [] None [])"
    by (simp add: store_down_world_def test_world_def)
  have ok: "raise_for_status (ok_response 204 [] None []) = Inr ()"
    by (simp add: raise_for_status_def ok_response_def)
  have cmd: "py_get balance_json ''data'' (JObj []) = Inr (JObj [(''name'', JStr ''balance'')])"
    by (simp add: balance_json_def)
  have h: "handle_command ?w balance_json (JStr ''9'') (JStr ''tok'') (test_state 15) =
             (Inr \<lparr>statusCode = 204, headers = std_headers, body = Text []\<rparr>,
              log_call (Requests ?cb) (log_call (GetItem (JStr ''42'')) (test_state 15)))"
    by (simp add: handle_command_def cmd sbind_def balance_command_def test_member_user_id
                  catch_run bnd_run get_user_tokens_run g
                  send_interaction_response_ok[OF cb ok] ok_response_def)
  have "lambda_attempt ?w (test_event good_signature balance_body) (test_state 15) =
          handle_command ?w balance_json (JStr ''9'') (JStr ''tok'') (test_state 15)"
    by (rule lambda_attempt_verified[OF test_event_fields(1) signatures_nonempty(1)
               test_event_fields(2) x test_event_fields(3) w k v p])
  then show ?thesis
    using h g by (simp add: lambda_handler_def catch_run)
qed

end
